theory Spec2Isabelle
  imports Complex_Main "HOL-Library.AList"
begin

section \<open>Exceptions\<close>

text \<open>
  The exception classes the modelled functions raise. The message texts of the source
  are partly non-ASCII; the model keeps an ASCII rendering of each message.
\<close>

datatype exn =
    ApiRequestError string
  | CurrencyNotFoundError string
  | ValueError string
  | RuntimeError string

section \<open>Timestamps (core/utils.py)\<close>

text \<open>
  A Python \<open>datetime\<close> is either naive (no UTC offset; the number is its wall-clock value
  in microseconds) or aware (the number is its UTC instant in microseconds). Ordering
  comparisons between two naive or two aware values compare the numbers; between a naive
  and an aware value they raise \<open>TypeError\<close>, which is the result \<open>None\<close> here.
\<close>

datatype pydatetime = Naive int | Aware int

fun dt_gt :: "pydatetime \<Rightarrow> pydatetime \<Rightarrow> bool option" where
  "dt_gt (Naive a) (Naive b) = Some (a > b)"
| "dt_gt (Aware a) (Aware b) = Some (a > b)"
| "dt_gt (Naive a) (Aware b) = None"
| "dt_gt (Aware a) (Naive b) = None"

text \<open>\<open>s.replace("Z", "+00:00")\<close>: every occurrence of the letter is replaced.\<close>

definition replace_Z :: "string \<Rightarrow> string" where
  "replace_Z s = concat (map (\<lambda>c. if c = CHR ''Z'' then ''+00:00'' else [c]) s)"

text \<open>
  \<open>parse_dt\<close> hands the rewritten string to the library's \<open>datetime.fromisoformat\<close>,
  which is a parameter of the model: \<open>None\<close> is its \<open>ValueError\<close>.
\<close>

definition parse_dt :: "(string \<Rightarrow> pydatetime option) \<Rightarrow> string \<Rightarrow> pydatetime option" where
  "parse_dt fromisoformat s = fromisoformat (replace_Z s)"

subsection \<open>A concrete reading of ISO strings, for evaluation on examples\<close>

text \<open>
  The part of \<open>datetime.fromisoformat\<close> that covers the strings this program writes
  (\<open>isoformat()\<close> at second precision): \<open>YYYY-MM-DDTHH:MM:SS\<close>, naive, or followed by an
  offset \<open>+HH:MM\<close> or \<open>-HH:MM\<close>, aware. It is used only to evaluate the model on concrete
  inputs; every general theorem holds for an arbitrary parser.
\<close>

definition digit_of :: "char \<Rightarrow> nat option" where
  "digit_of c = (let n = (of_char c :: nat) in if 48 \<le> n \<and> n \<le> 57 then Some (n - 48) else None)"

fun number_of :: "nat \<Rightarrow> string \<Rightarrow> nat option" where
  "number_of acc [] = Some acc"
| "number_of acc (c # cs) =
     (case digit_of c of None \<Rightarrow> None | Some d \<Rightarrow> number_of (10 * acc + d) cs)"

definition is_leap :: "nat \<Rightarrow> bool" where
  "is_leap y = (y mod 4 = 0 \<and> (y mod 100 \<noteq> 0 \<or> y mod 400 = 0))"

definition days_in_month :: "nat \<Rightarrow> nat \<Rightarrow> nat" where
  "days_in_month y m =
     (if m = 2 then (if is_leap y then 29 else 28)
      else if m = 4 \<or> m = 6 \<or> m = 9 \<or> m = 11 then 30 else 31)"

text \<open>Days from 1970-01-01 to the given civil date (proleptic Gregorian calendar).\<close>

definition days_from_civil :: "nat \<Rightarrow> nat \<Rightarrow> nat \<Rightarrow> int" where
  "days_from_civil y m d =
     (let y' = (if m \<le> 2 then int y - 1 else int y);
          era = y' div 400;
          yoe = y' - era * 400;
          mp = (int m + 9) mod 12;
          doy = (153 * mp + 2) div 5 + int d - 1;
          doe = yoe * 365 + yoe div 4 - yoe div 100 + doy
      in era * 146097 + doe - 719468)"

definition wall_seconds :: "string \<Rightarrow> int option" where
  "wall_seconds s =
     (if length s = 19 \<and> s ! 4 = CHR ''-'' \<and> s ! 7 = CHR ''-'' \<and> s ! 10 = CHR ''T''
         \<and> s ! 13 = CHR '':'' \<and> s ! 16 = CHR '':''
      then (case (number_of 0 (take 4 s), number_of 0 (take 2 (drop 5 s)),
                  number_of 0 (take 2 (drop 8 s)), number_of 0 (take 2 (drop 11 s)),
                  number_of 0 (take 2 (drop 14 s)), number_of 0 (take 2 (drop 17 s))) of
              (Some y, Some m, Some d, Some h, Some mi, Some sc) \<Rightarrow>
                 if 1 \<le> y \<and> 1 \<le> m \<and> m \<le> 12 \<and> 1 \<le> d \<and> d \<le> days_in_month y m
                    \<and> h < 24 \<and> mi < 60 \<and> sc < 60
                 then Some (days_from_civil y m d * 86400 + int h * 3600 + int mi * 60 + int sc)
                 else None
            | _ \<Rightarrow> None)
      else None)"

definition offset_seconds :: "string \<Rightarrow> int option" where
  "offset_seconds s =
     (if length s = 6 \<and> (s ! 0 = CHR ''+'' \<or> s ! 0 = CHR ''-'') \<and> s ! 3 = CHR '':''
      then (case (number_of 0 (take 2 (drop 1 s)), number_of 0 (take 2 (drop 4 s))) of
              (Some h, Some mi) \<Rightarrow>
                 if h < 24 \<and> mi < 60
                 then Some ((if s ! 0 = CHR ''-'' then - 1 else 1) * (int h * 3600 + int mi * 60))
                 else None
            | _ \<Rightarrow> None)
      else None)"

definition fromisoformat_basic :: "string \<Rightarrow> pydatetime option" where
  "fromisoformat_basic s =
     (if length s = 19 then map_option (\<lambda>t. Naive (t * 1000000)) (wall_seconds s)
      else if length s = 25 then
        (case (wall_seconds (take 19 s), offset_seconds (drop 19 s)) of
           (Some t, Some off) \<Rightarrow> Some (Aware ((t - off) * 1000000))
         | _ \<Rightarrow> None)
      else None)"

section \<open>Data model\<close>

text \<open>
  One entry of the snapshot's \<open>pairs\<close> object: \<open>{"rate", "updated_at", "source"}\<close>.
  Python floats are modelled as reals.
\<close>

record rate_point =
  rp_rate :: real
  rp_updated_at :: string
  rp_source :: string

text \<open>
  A Python \<open>dict\<close> that the code iterates is an association list in insertion order;
  \<open>d[k] = v\<close> is \<open>AList.update k v\<close> (in place when the key exists, appended otherwise)
  and \<open>k in d\<close> is \<open>map_of d k \<noteq> None\<close>.
\<close>

type_synonym 'v pydict = "(string \<times> 'v) list"

text \<open>The snapshot document \<open>{"pairs": {...}, "last_refresh": ... | null}\<close>.\<close>

record snapshot =
  pairs :: "rate_point pydict"
  last_refresh :: "string option"

record history_meta =
  hm_raw_id :: "string option"
  hm_request_ms :: "int option"
  hm_status_code :: "int option"
  hm_etag :: "string option"

record history_entry =
  he_id :: string
  he_from_currency :: string
  he_to_currency :: string
  he_rate :: real
  he_timestamp :: string
  he_source :: string
  he_meta :: history_meta

text \<open>The two files the parser service writes: \<open>rates.json\<close> and \<open>exchange_rates.json\<close>.\<close>

record storage =
  rates_file :: snapshot
  history_file :: "history_entry list"

section \<open>Snapshot store (parser\_service/storage.py, infra/database.py)\<close>

text \<open>
  The guarded comparison of \<open>write_snapshot\<close>:
  \<open>parse_dt(v["updated_at"]) > parse_dt(old["updated_at"])\<close> inside \<open>try\<close>.
  \<open>None\<close> stands for any exception (a parse failure of either string, or the
  \<open>TypeError\<close> of comparing a naive with an aware value).
\<close>

definition incoming_newer ::
  "(string \<Rightarrow> pydatetime option) \<Rightarrow> rate_point \<Rightarrow> rate_point \<Rightarrow> bool option" where
  "incoming_newer fiso v old =
     (case parse_dt fiso (rp_updated_at v) of
        None \<Rightarrow> None
      | Some a \<Rightarrow>
          (case parse_dt fiso (rp_updated_at old) of
             None \<Rightarrow> None
           | Some b \<Rightarrow> dt_gt a b))"

text \<open>The body of the loop over \<open>pairs.items()\<close>.\<close>

definition merge_step ::
  "(string \<Rightarrow> pydatetime option) \<Rightarrow> string \<Rightarrow> rate_point \<Rightarrow> rate_point pydict \<Rightarrow> rate_point pydict" where
  "merge_step fiso k v cur_pairs =
     (case map_of cur_pairs k of
        None \<Rightarrow> AList.update k v cur_pairs
      | Some old \<Rightarrow>
          (case incoming_newer fiso v old of
             Some True \<Rightarrow> AList.update k v cur_pairs
           | Some False \<Rightarrow> cur_pairs
           | None \<Rightarrow> AList.update k v cur_pairs))"

fun merge_loop ::
  "(string \<Rightarrow> pydatetime option) \<Rightarrow> rate_point pydict \<Rightarrow> rate_point pydict \<Rightarrow> rate_point pydict" where
  "merge_loop fiso [] cur_pairs = cur_pairs"
| "merge_loop fiso ((k, v) # ps) cur_pairs = merge_loop fiso ps (merge_step fiso k v cur_pairs)"

text \<open>
  \<open>RatesStorage.write_snapshot(pairs, last_refresh)\<close>: the file read by \<open>read_rates\<close> is
  the argument, the document handed to \<open>write_rates\<close> is the result.
\<close>

definition write_snapshot ::
  "(string \<Rightarrow> pydatetime option) \<Rightarrow> rate_point pydict \<Rightarrow> string \<Rightarrow> snapshot \<Rightarrow> snapshot" where
  "write_snapshot fiso new_pairs refreshed_at current =
     current\<lparr>pairs := merge_loop fiso new_pairs (pairs current),
             last_refresh := Some refreshed_at\<rparr>"

text \<open>
  \<open>DatabaseManager.append_history\<close>: the set of existing ids is computed once, before the
  loop, from the stored history.
\<close>

fun append_loop :: "string set \<Rightarrow> history_entry list \<Rightarrow> history_entry list \<Rightarrow> history_entry list" where
  "append_loop existing_ids [] history = history"
| "append_loop existing_ids (e # es) history =
     append_loop existing_ids es (if he_id e \<notin> existing_ids then history @ [e] else history)"

definition append_history :: "history_entry list \<Rightarrow> history_entry list \<Rightarrow> history_entry list" where
  "append_history entries history = append_loop (set (map he_id history)) entries history"

section \<open>Synchronizer (parser\_service/updater.py)\<close>

text \<open>
  A client as \<open>run_update\<close> sees it: the name of its class, the outcome of its
  \<open>fetch_rates()\<close> (the text \<open>str(e)\<close> of the exception it raised, or the dict it returned)
  and its \<open>last_meta\<close> after the call. A key missing from \<open>last_meta\<close> is \<open>None\<close>.
\<close>

record client_meta =
  cm_source :: "string option"
  cm_timestamp :: "string option"
  cm_request_ms :: "int option"
  cm_status_code :: "int option"
  cm_etag :: "string option"

record client =
  cl_name :: string
  cl_fetch :: "string + real pydict"
  cl_last_meta :: client_meta

datatype source_report = SourceOk nat | SourceFailed string

record sync_report =
  sr_ok :: bool
  sr_total :: nat
  sr_last_refresh :: string
  sr_errors :: "string list"
  sr_sources :: "source_report pydict"

text \<open>The local variables of \<open>run_update\<close> that the loop over the clients changes.\<close>

record update_acc =
  ua_combined :: "rate_point pydict"
  ua_history_entries :: "history_entry list"
  ua_total :: nat
  ua_errors :: "string list"
  ua_sources :: "source_report pydict"

text \<open>
  \<open>pair.split("_", maxsplit=1)\<close> unpacked into two names: the text before and after the
  first separator, \<open>None\<close> when there is none (the unpacking raises \<open>ValueError\<close>).
\<close>

fun split_once :: "char \<Rightarrow> string \<Rightarrow> (string \<times> string) option" where
  "split_once sep [] = None"
| "split_once sep (c # cs) =
     (if c = sep then Some ([], cs)
      else (case split_once sep cs of None \<Rightarrow> None | Some (a, b) \<Rightarrow> Some (c # a, b)))"

text \<open>
  The inner loop over \<open>rates.items()\<close>, on \<open>combined\<close>, \<open>history_entries\<close> and \<open>count\<close>.
  The first component of the result is the message of the exception that ended the loop,
  if any; what the loop wrote before stays written. \<open>CRYPTO_ID_MAP\<close> of the configuration
  is the parameter \<open>id_map\<close>.
\<close>

fun process_rates ::
  "(string \<rightharpoonup> string) \<Rightarrow> client_meta \<Rightarrow> string \<Rightarrow> string \<Rightarrow> real pydict
     \<Rightarrow> rate_point pydict \<times> history_entry list \<times> nat
     \<Rightarrow> string option \<times> rate_point pydict \<times> history_entry list \<times> nat" where
  "process_rates id_map meta src updated_at [] st = (None, st)"
| "process_rates id_map meta src updated_at ((pair, r) # rest) (combined, history_entries, count) =
     (let combined' = AList.update pair
            \<lparr>rp_rate = r, rp_updated_at = updated_at, rp_source = src\<rparr> combined;
          count' = count + 1
      in case split_once CHR ''_'' pair of
           None \<Rightarrow> (Some ''not enough values to unpack (expected 2, got 1)'',
                     combined', history_entries, count')
         | Some (from_cur, to_cur) \<Rightarrow>
             process_rates id_map meta src updated_at rest
               (combined',
                history_entries @
                  [\<lparr>he_id = from_cur @ ''_'' @ to_cur @ ''_'' @ updated_at,
                    he_from_currency = from_cur,
                    he_to_currency = to_cur,
                    he_rate = r,
                    he_timestamp = updated_at,
                    he_source = src,
                    he_meta = \<lparr>hm_raw_id = id_map from_cur,
                               hm_request_ms = cm_request_ms meta,
                               hm_status_code = cm_status_code meta,
                               hm_etag = cm_etag meta\<rparr>\<rparr>],
                count'))"

text \<open>The \<open>except Exception\<close> branch.\<close>

definition record_failure :: "string \<Rightarrow> string \<Rightarrow> update_acc \<Rightarrow> update_acc" where
  "record_failure name e acc =
     acc\<lparr>ua_errors := ua_errors acc @ [''Failed to fetch from '' @ name @ '': '' @ e],
         ua_sources := AList.update name (SourceFailed e) (ua_sources acc)\<rparr>"

text \<open>\<open>source = meta.get("source", name)\<close> and \<open>updated_at = meta.get("timestamp", last_refresh)\<close>.\<close>

definition client_source :: "client \<Rightarrow> string" where
  "client_source c = (case cm_source (cl_last_meta c) of None \<Rightarrow> cl_name c | Some s \<Rightarrow> s)"

definition client_updated_at :: "string \<Rightarrow> client \<Rightarrow> string" where
  "client_updated_at last_refresh_now c =
     (case cm_timestamp (cl_last_meta c) of None \<Rightarrow> last_refresh_now | Some t \<Rightarrow> t)"

text \<open>One iteration of the loop over \<open>self.clients\<close>.\<close>

definition client_step :: "(string \<rightharpoonup> string) \<Rightarrow> string \<Rightarrow> client \<Rightarrow> update_acc \<Rightarrow> update_acc" where
  "client_step id_map last_refresh_now c acc =
     (let name = cl_name c in
      case cl_fetch c of
        Inl e \<Rightarrow> record_failure name e acc
      | Inr rates \<Rightarrow>
          (case process_rates id_map (cl_last_meta c) (client_source c)
                  (client_updated_at last_refresh_now c) rates
                  (ua_combined acc, ua_history_entries acc, 0) of
             (exc, combined', history_entries', count) \<Rightarrow>
               (let acc' = acc\<lparr>ua_combined := combined', ua_history_entries := history_entries'\<rparr>
                in case exc of
                     Some e \<Rightarrow> record_failure name e acc'
                   | None \<Rightarrow>
                       acc'\<lparr>ua_total := ua_total acc' + count,
                            ua_sources := AList.update name (SourceOk count) (ua_sources acc')\<rparr>)))"

fun clients_loop :: "(string \<rightharpoonup> string) \<Rightarrow> string \<Rightarrow> client list \<Rightarrow> update_acc \<Rightarrow> update_acc" where
  "clients_loop id_map last_refresh_now [] acc = acc"
| "clients_loop id_map last_refresh_now (c # cs) acc =
     clients_loop id_map last_refresh_now cs (client_step id_map last_refresh_now c acc)"

definition initial_acc :: update_acc where
  "initial_acc = \<lparr>ua_combined = [], ua_history_entries = [], ua_total = 0,
                   ua_errors = [], ua_sources = []\<rparr>"

text \<open>
  \<open>RatesUpdater.run_update\<close>. \<open>last_refresh_now\<close> is the value \<open>iso_now_utc()\<close> returned
  at the start of the run. The result is the exception raised or the report returned,
  and the two files after the run.
\<close>

definition run_update ::
  "(string \<Rightarrow> pydatetime option) \<Rightarrow> (string \<rightharpoonup> string) \<Rightarrow> string \<Rightarrow> client list \<Rightarrow> storage
     \<Rightarrow> (exn + sync_report) \<times> storage" where
  "run_update fiso id_map last_refresh_now clients st =
     (let acc = clients_loop id_map last_refresh_now clients initial_acc in
      if ua_total acc = 0 then (Inl (RuntimeError ''No rates fetched from any source''), st)
      else
        (let st' = st\<lparr>rates_file :=
                        write_snapshot fiso (ua_combined acc) last_refresh_now (rates_file st),
                      history_file := append_history (ua_history_entries acc) (history_file st)\<rparr>
         in if ua_errors acc \<noteq> []
            then (Inr \<lparr>sr_ok = False, sr_total = ua_total acc, sr_last_refresh = last_refresh_now,
                       sr_errors = ua_errors acc, sr_sources = ua_sources acc\<rparr>, st')
            else (Inr \<lparr>sr_ok = True, sr_total = ua_total acc, sr_last_refresh = last_refresh_now,
                       sr_errors = [], sr_sources = ua_sources acc\<rparr>, st')))"

subsection \<open>Vocabulary for the properties of a run\<close>

text \<open>
  A client succeeds in a run when its fetch returns and every returned pair key has the
  separator, so that the \<open>try\<close> block ends without an exception; otherwise it fails, with
  the text of the exception. \<open>client_rates\<close> is the dict a client returned and
  \<open>fetched_point\<close> the rate point the run builds for one of its rates.
\<close>

definition client_rates :: "client \<Rightarrow> real pydict" where
  "client_rates c = (case cl_fetch c of Inl e \<Rightarrow> [] | Inr rates \<Rightarrow> rates)"

definition client_succeeds :: "client \<Rightarrow> bool" where
  "client_succeeds c =
     (case cl_fetch c of
        Inl e \<Rightarrow> False
      | Inr rates \<Rightarrow> list_all (\<lambda>p. split_once CHR ''_'' (fst p) \<noteq> None) rates)"

definition client_error :: "client \<Rightarrow> string" where
  "client_error c =
     (case cl_fetch c of
        Inl e \<Rightarrow> e
      | Inr rates \<Rightarrow> ''not enough values to unpack (expected 2, got 1)'')"

definition source_entry :: "client \<Rightarrow> source_report" where
  "source_entry c =
     (if client_succeeds c then SourceOk (length (client_rates c))
      else SourceFailed (client_error c))"

definition fetched_point :: "string \<Rightarrow> client \<Rightarrow> real \<Rightarrow> rate_point" where
  "fetched_point last_refresh_now c r =
     \<lparr>rp_rate = r, rp_updated_at = client_updated_at last_refresh_now c, rp_source = client_source c\<rparr>"

text \<open>
  The history entries the run builds for the rates of one client: one per pair, in
  order, up to the first pair key without the separator (where the loop is left).
\<close>

fun fetched_entries :: "(string \<rightharpoonup> string) \<Rightarrow> string \<Rightarrow> client \<Rightarrow> real pydict \<Rightarrow> history_entry list" where
  "fetched_entries id_map last_refresh_now c [] = []"
| "fetched_entries id_map last_refresh_now c ((pair, r) # rest) =
     (case split_once CHR ''_'' pair of
        None \<Rightarrow> []
      | Some (from_cur, to_cur) \<Rightarrow>
          \<lparr>he_id = from_cur @ ''_'' @ to_cur @ ''_'' @ client_updated_at last_refresh_now c,
           he_from_currency = from_cur,
           he_to_currency = to_cur,
           he_rate = r,
           he_timestamp = client_updated_at last_refresh_now c,
           he_source = client_source c,
           he_meta = \<lparr>hm_raw_id = id_map from_cur,
                      hm_request_ms = cm_request_ms (cl_last_meta c),
                      hm_status_code = cm_status_code (cl_last_meta c),
                      hm_etag = cm_etag (cl_last_meta c)\<rparr>\<rparr>
            # fetched_entries id_map last_refresh_now c rest)"

definition client_entries :: "(string \<rightharpoonup> string) \<Rightarrow> string \<Rightarrow> client \<Rightarrow> history_entry list" where
  "client_entries id_map last_refresh_now c =
     fetched_entries id_map last_refresh_now c (client_rates c)"

section \<open>Currency codes (core/utils.py, core/currencies.py)\<close>

text \<open>
  Strings are byte strings here, so \<open>strip\<close> and \<open>upper\<close> are the ASCII parts of Python's
  \<open>str.strip()\<close> and \<open>str.upper()\<close>.
\<close>

definition is_space :: "char \<Rightarrow> bool" where
  "is_space c = (let n = (of_char c :: nat) in (9 \<le> n \<and> n \<le> 13) \<or> (28 \<le> n \<and> n \<le> 32))"

definition strip :: "string \<Rightarrow> string" where
  "strip s = rev (dropWhile is_space (rev (dropWhile is_space s)))"

definition upper_char :: "char \<Rightarrow> char" where
  "upper_char c = (let n = (of_char c :: nat) in if 97 \<le> n \<and> n \<le> 122 then char_of (n - 32) else c)"

definition upper :: "string \<Rightarrow> string" where
  "upper s = map upper_char s"

definition is_AZ :: "char \<Rightarrow> bool" where
  "is_AZ c = (let n = (of_char c :: nat) in 65 \<le> n \<and> n \<le> 90)"

text \<open>\<open>validate_currency_code\<close>: the pattern is \<open>^[A-Z]{2,5}$\<close>, matched on the stripped, upper-cased code.\<close>

definition validate_currency_code :: "string \<Rightarrow> exn + unit" where
  "validate_currency_code code =
     (let c = upper (strip code) in
      if CHR '' '' \<in> set c \<or> \<not> (2 \<le> length c \<and> length c \<le> 5 \<and> list_all is_AZ c)
      then Inl (ValueError ''code: upper case, 2-5 characters, no spaces'')
      else Inr ())"

definition pair_key :: "string \<Rightarrow> string \<Rightarrow> string" where
  "pair_key from_code to_code = upper from_code @ ''_'' @ upper to_code"

text \<open>The keys of the registry of supported currencies.\<close>

definition REGISTRY :: "string list" where
  "REGISTRY = [''USD'', ''EUR'', ''GBP'', ''RUB'', ''BTC'', ''ETH'', ''SOL'']"

text \<open>\<open>get_currency\<close>, returning the registry key in place of the currency object.\<close>

definition get_currency :: "string \<Rightarrow> exn + string" where
  "get_currency code =
     (let code_u = strip (upper code) in
      if code_u \<notin> set REGISTRY then Inl (CurrencyNotFoundError code_u) else Inr code_u)"

text \<open>A supported currency code passes both checks the resolver makes.\<close>

definition supported_code :: "string \<Rightarrow> bool" where
  "supported_code code =
     (validate_currency_code code = Inr () \<and> get_currency code = Inr (strip (upper code)))"

section \<open>Rate source client (parser\_service/api\_clients.py)\<close>

text \<open>
  The fields of \<open>ParserConfig\<close> that \<open>ExchangeRateApiClient.fetch_rates\<close> reads. The class is
  not among the sources, so the configuration is a parameter.
\<close>

record parser_config =
  BASE_CURRENCY :: string
  FIAT_CURRENCIES :: "string list"
  EXCHANGERATE_API_KEY :: string

text \<open>
  The provider's JSON document: \<open>data.get("result")\<close>, \<open>data.get("error-type")\<close>,
  \<open>data.get("rates", {})\<close> as a map from code to number (a missing or null entry is
  \<open>None\<close>) and \<open>data.get("time_last_update_utc")\<close>.
\<close>

record er_payload =
  ep_result :: "string option"
  ep_error_type :: "string option"
  ep_rates :: "string \<rightharpoonup> real"
  ep_time_last_update_utc :: "string option"

text \<open>The HTTP response; \<open>resp_json = None\<close> when \<open>resp.json()\<close> raises.\<close>

record http_response =
  status_code :: int
  resp_text :: string
  resp_etag :: "string option"
  resp_json :: "er_payload option"

text \<open>The loop over \<open>FIAT_CURRENCIES\<close> that fills \<open>out\<close>.\<close>

fun fiat_loop :: "parser_config \<Rightarrow> (string \<rightharpoonup> real) \<Rightarrow> string list \<Rightarrow> real pydict \<Rightarrow> exn + real pydict" where
  "fiat_loop cfg rates [] out = Inr out"
| "fiat_loop cfg rates (code # codes) out =
     (case validate_currency_code code of
        Inl e \<Rightarrow> Inl e
      | Inr u \<Rightarrow>
          if code = BASE_CURRENCY cfg then fiat_loop cfg rates codes out
          else (case rates code of
                  None \<Rightarrow> fiat_loop cfg rates codes out
                | Some val \<Rightarrow>
                    if val = 0 then fiat_loop cfg rates codes out
                    else fiat_loop cfg rates codes
                           (AList.update (pair_key code (BASE_CURRENCY cfg)) (1 / val) out)))"

text \<open>
  \<open>ExchangeRateApiClient.fetch_rates\<close>. The parameters stand for what the call reads from
  outside: \<open>http\<close> is the outcome of \<open>requests.get\<close> (the text of the transport exception,
  or the response), \<open>ms\<close> the measured latency, \<open>to_iso\<close> the composition of
  \<open>parsedate_to_datetime\<close> and \<open>isoformat_dt\<close> (\<open>None\<close> when the date does not parse),
  \<open>now_iso\<close> the formatted current time and \<open>meta\<close> the client's \<open>last_meta\<close> before the
  call. The result is the exception or the returned dict, and \<open>last_meta\<close> after the call.
  Status codes are not rendered into the message texts.
\<close>

definition fetch_rates ::
  "parser_config \<Rightarrow> string + http_response \<Rightarrow> int \<Rightarrow> (string \<Rightarrow> string option) \<Rightarrow> string
     \<Rightarrow> client_meta \<Rightarrow> (exn + real pydict) \<times> client_meta" where
  "fetch_rates cfg http ms to_iso now_iso meta =
     (if EXCHANGERATE_API_KEY cfg = []
      then (Inl (ApiRequestError ''ExchangeRate-API key is missing (set EXCHANGERATE_API_KEY env var)''), meta)
      else
       (case http of
          Inl e \<Rightarrow> (Inl (ApiRequestError (''ExchangeRate-API network error: '' @ e)), meta)
        | Inr resp \<Rightarrow>
           (if status_code resp = 401 \<or> status_code resp = 403
            then (Inl (ApiRequestError ''ExchangeRate-API: invalid or blocked API key (401/403)''), meta)
            else if status_code resp = 429
            then (Inl (ApiRequestError ''ExchangeRate-API: 429 Too Many Requests''), meta)
            else if 500 \<le> status_code resp \<and> status_code resp \<le> 599
            then (Inl (ApiRequestError ''ExchangeRate-API: server error''), meta)
            else if status_code resp \<noteq> 200
            then (Inl (ApiRequestError (''ExchangeRate-API: status: '' @ take 200 (resp_text resp))), meta)
            else
             (case resp_json resp of
                None \<Rightarrow> (Inl (ValueError ''response body is not JSON''), meta)
              | Some data \<Rightarrow>
                 (if ep_result data \<noteq> Some ''success''
                  then (Inl (ApiRequestError (''ExchangeRate-API error: '' @
                          (case ep_error_type data of None \<Rightarrow> ''unknown'' | Some t \<Rightarrow> t))), meta)
                  else
                   (case (case ep_time_last_update_utc data of
                            None \<Rightarrow> Some now_iso
                          | Some utc_str \<Rightarrow> (if utc_str = [] then Some now_iso else to_iso utc_str)) of
                      None \<Rightarrow> (Inl (ValueError ''time_last_update_utc is not a date''), meta)
                    | Some dt \<Rightarrow>
                       (case fiat_loop cfg (ep_rates data) (FIAT_CURRENCIES cfg) [] of
                          Inl e \<Rightarrow> (Inl e, meta)
                        | Inr out \<Rightarrow>
                           (Inr out,
                            \<lparr>cm_source = Some ''ExchangeRate-API'', cm_timestamp = Some dt,
                             cm_request_ms = Some ms, cm_status_code = Some (status_code resp),
                             cm_etag = resp_etag resp\<rparr>))))))))"

section \<open>Rate resolver and valuation helper (core/usecases.py)\<close>

text \<open>
  \<open>CoreUseCases._get_pair_rate\<close>. \<open>snap\<close> is the snapshot the cached rates reader returns;
  the model takes it to be the same for the nested calls of one resolution (the cache
  does not expire in the middle of it).
\<close>

function get_pair_rate :: "snapshot \<Rightarrow> string \<Rightarrow> string \<Rightarrow> exn + (real \<times> string)" where
  "get_pair_rate snap from_code to_code =
     (case validate_currency_code from_code of
        Inl e \<Rightarrow> Inl e
      | Inr u1 \<Rightarrow>
     (case validate_currency_code to_code of
        Inl e \<Rightarrow> Inl e
      | Inr u2 \<Rightarrow>
     (case get_currency from_code of
        Inl e \<Rightarrow> Inl e
      | Inr c1 \<Rightarrow>
     (case get_currency to_code of
        Inl e \<Rightarrow> Inl e
      | Inr c2 \<Rightarrow>
     (case map_of (pairs snap) (pair_key from_code to_code) of
        Some item \<Rightarrow> Inr (rp_rate item, rp_updated_at item)
      | None \<Rightarrow>
     (case map_of (pairs snap) (pair_key to_code from_code) of
        Some item \<Rightarrow>
          if rp_rate item = 0 then Inl (ApiRequestError ''zero rate in cache'')
          else Inr (1 / rp_rate item, rp_updated_at item)
      | None \<Rightarrow>
          if from_code \<noteq> ''USD'' \<and> to_code \<noteq> ''USD''
          then (case get_pair_rate snap from_code ''USD'' of
                  Inl e \<Rightarrow> Inl e
                | Inr r1 \<Rightarrow>
                    (case get_pair_rate snap to_code ''USD'' of
                       Inl e \<Rightarrow> Inl e
                     | Inr r2 \<Rightarrow>
                         if fst r2 = 0 then Inl (ApiRequestError ''zero rate of the USD bridge'')
                         else Inr (fst r1 / fst r2, snd r1)))
          else Inl (ApiRequestError ''rate not found in cache'')))))))"
  by pat_completeness auto
termination
  by (relation "measure (\<lambda>(snap, from_code, to_code).
        if from_code \<noteq> ''USD'' \<and> to_code \<noteq> ''USD'' then 1 else 0)") auto

declare get_pair_rate.simps [simp del]

text \<open>
  The state the resolver works on: the snapshot its rates reader returns at the moment,
  and the files.
\<close>

record core_state =
  cs_cached :: snapshot
  cs_db :: storage

fun exn_text :: "exn \<Rightarrow> string" where
  "exn_text (ApiRequestError m) = m"
| "exn_text (CurrencyNotFoundError m) = m"
| "exn_text (ValueError m) = m"
| "exn_text (RuntimeError m) = m"

text \<open>
  \<open>_try_refresh_rates\<close>: one \<open>run_update\<close> with the two clients; \<open>cg\<close> and \<open>er\<close> are the
  outcome of each client's fetch and its \<open>last_meta\<close>. After a successful run the rates
  reader is rebuilt, so it returns the file.
\<close>

definition try_refresh_rates ::
  "(string \<Rightarrow> pydatetime option) \<Rightarrow> (string \<rightharpoonup> string) \<Rightarrow> string
     \<Rightarrow> (string + real pydict) \<times> client_meta \<Rightarrow> (string + real pydict) \<times> client_meta
     \<Rightarrow> core_state \<Rightarrow> (exn + unit) \<times> core_state" where
  "try_refresh_rates fiso id_map now_iso cg er cs =
     (case run_update fiso id_map now_iso
             [\<lparr>cl_name = ''CoinGeckoClient'', cl_fetch = fst cg, cl_last_meta = snd cg\<rparr>,
              \<lparr>cl_name = ''ExchangeRateApiClient'', cl_fetch = fst er, cl_last_meta = snd er\<rparr>]
             (cs_db cs) of
        (Inl e, db') \<Rightarrow> (Inl (ApiRequestError (exn_text e)), cs\<lparr>cs_db := db'\<rparr>)
      | (Inr rep, db') \<Rightarrow> (Inr (), \<lparr>cs_cached = rates_file db', cs_db = db'\<rparr>))"

record rate_result =
  rr_from :: string
  rr_to :: string
  rr_rate :: real
  rr_updated_at :: string
  rr_stale :: bool

text \<open>
  The staleness flag of \<open>get_rate\<close>: \<open>now_utc\<close> is \<open>datetime.now(UTC)\<close> in microseconds;
  subtracting a naive value from it raises, as a parse failure does, and gives \<open>True\<close>.
\<close>

definition is_stale :: "(string \<Rightarrow> pydatetime option) \<Rightarrow> int \<Rightarrow> int \<Rightarrow> string \<Rightarrow> bool" where
  "is_stale fiso now_utc ttl updated_at =
     (case parse_dt fiso updated_at of
        Some (Aware t) \<Rightarrow> now_utc - t > ttl * 1000000
      | Some (Naive t) \<Rightarrow> True
      | None \<Rightarrow> True)"

definition rate_answer ::
  "(string \<Rightarrow> pydatetime option) \<Rightarrow> int \<Rightarrow> int \<Rightarrow> string \<Rightarrow> string \<Rightarrow> real \<times> string \<Rightarrow> rate_result" where
  "rate_answer fiso now_utc ttl from_code to_code r =
     \<lparr>rr_from = from_code, rr_to = to_code, rr_rate = fst r, rr_updated_at = snd r,
      rr_stale = is_stale fiso now_utc ttl (snd r)\<rparr>"

text \<open>
  \<open>CoreUseCases.get_rate\<close>: only an \<open>ApiRequestError\<close> of the first resolution leads to the
  refresh and the second resolution; every other exception is passed on.
\<close>

definition get_rate ::
  "(string \<Rightarrow> pydatetime option) \<Rightarrow> (string \<rightharpoonup> string) \<Rightarrow> string
     \<Rightarrow> (string + real pydict) \<times> client_meta \<Rightarrow> (string + real pydict) \<times> client_meta
     \<Rightarrow> int \<Rightarrow> int \<Rightarrow> core_state \<Rightarrow> string \<Rightarrow> string \<Rightarrow> (exn + rate_result) \<times> core_state" where
  "get_rate fiso id_map now_iso cg er now_utc ttl cs from_code to_code =
     (case get_pair_rate (cs_cached cs) from_code to_code of
        Inr r \<Rightarrow> (Inr (rate_answer fiso now_utc ttl from_code to_code r), cs)
      | Inl (ApiRequestError m) \<Rightarrow>
          (case try_refresh_rates fiso id_map now_iso cg er cs of
             (Inl e, cs') \<Rightarrow> (Inl e, cs')
           | (Inr u, cs') \<Rightarrow>
               (case get_pair_rate (cs_cached cs') from_code to_code of
                  Inl e \<Rightarrow> (Inl e, cs')
                | Inr r \<Rightarrow> (Inr (rate_answer fiso now_utc ttl from_code to_code r), cs')))
      | Inl e \<Rightarrow> (Inl e, cs))"

text \<open>\<open>CoreUseCases._convert_amount\<close>.\<close>

definition convert_amount :: "snapshot \<Rightarrow> real \<Rightarrow> string \<Rightarrow> string \<Rightarrow> exn + real" where
  "convert_amount snap amount from_code to_code =
     (if upper from_code = upper to_code then Inr amount
      else (case get_pair_rate snap from_code to_code of
              Inl e \<Rightarrow> Inl e
            | Inr r \<Rightarrow> Inr (amount * fst r)))"

section \<open>Example data\<close>

text \<open>Concrete snapshots, payloads and clients on which the model is evaluated below.\<close>

definition ex_point_jan1 :: rate_point where
  "ex_point_jan1 = \<lparr>rp_rate = 2, rp_updated_at = ''2024-01-01T00:00:00Z'', rp_source = ''ExchangeRate-API''\<rparr>"

definition ex_point_jan2 :: rate_point where
  "ex_point_jan2 = \<lparr>rp_rate = 3, rp_updated_at = ''2024-01-02T00:00:00Z'', rp_source = ''ExchangeRate-API''\<rparr>"

definition ex_point_naive :: rate_point where
  "ex_point_naive = \<lparr>rp_rate = 1, rp_updated_at = ''2023-12-31T00:00:00'', rp_source = ''manual''\<rparr>"

definition ex_empty_snapshot :: snapshot where
  "ex_empty_snapshot = \<lparr>pairs = [], last_refresh = None\<rparr>"

definition ex_snapshot_jan1 :: snapshot where
  "ex_snapshot_jan1 = \<lparr>pairs = [(''EUR_USD'', ex_point_jan1), (''GBP_USD'', ex_point_jan1)],
                        last_refresh = Some ''2024-01-01T00:00:00Z''\<rparr>"

definition ex_entry :: history_entry where
  "ex_entry = \<lparr>he_id = ''BTC_USD_2024-01-01T00:00:00Z'', he_from_currency = ''BTC'',
               he_to_currency = ''USD'', he_rate = 40000, he_timestamp = ''2024-01-01T00:00:00Z'',
               he_source = ''CoinGecko'',
               he_meta = \<lparr>hm_raw_id = Some ''bitcoin'', hm_request_ms = Some 120,
                          hm_status_code = Some 200, hm_etag = None\<rparr>\<rparr>"

definition ex_storage :: storage where
  "ex_storage = \<lparr>rates_file = ex_snapshot_jan1, history_file = [ex_entry]\<rparr>"

definition ex_no_meta :: client_meta where
  "ex_no_meta = \<lparr>cm_source = None, cm_timestamp = None, cm_request_ms = None,
                  cm_status_code = None, cm_etag = None\<rparr>"

definition ex_coingecko_meta :: client_meta where
  "ex_coingecko_meta = \<lparr>cm_source = Some ''CoinGecko'', cm_timestamp = Some ''2024-01-02T00:00:00Z'',
                         cm_request_ms = Some 120, cm_status_code = Some 200, cm_etag = None\<rparr>"

definition ex_coingecko_empty :: client where
  "ex_coingecko_empty =
     \<lparr>cl_name = ''CoinGeckoClient'', cl_fetch = Inr [], cl_last_meta = ex_coingecko_meta\<rparr>"

definition ex_coingecko_down :: client where
  "ex_coingecko_down =
     \<lparr>cl_name = ''CoinGeckoClient'', cl_fetch = Inl ''CoinGecko: server error 503'',
      cl_last_meta = ex_no_meta\<rparr>"

definition ex_exchangerate_limited :: client where
  "ex_exchangerate_limited =
     \<lparr>cl_name = ''ExchangeRateApiClient'',
      cl_fetch = Inl ''ExchangeRate-API: 429 Too Many Requests'',
      cl_last_meta = ex_no_meta\<rparr>"

definition ex_exchangerate_meta :: client_meta where
  "ex_exchangerate_meta =
     \<lparr>cm_source = Some ''ExchangeRate-API'', cm_timestamp = Some ''2024-01-02T00:00:00Z'',
      cm_request_ms = Some 80, cm_status_code = Some 200, cm_etag = None\<rparr>"

definition ex_exchangerate_ok :: client where
  "ex_exchangerate_ok =
     \<lparr>cl_name = ''ExchangeRateApiClient'',
      cl_fetch = Inr [(''EUR_USD'', 3), (''RUB_USD'', 1 / 100)],
      cl_last_meta = ex_exchangerate_meta\<rparr>"

definition ex_second_coingecko :: client where
  "ex_second_coingecko =
     \<lparr>cl_name = ''CoinGeckoClient'', cl_fetch = Inr [(''BTC_USD'', 40000)],
      cl_last_meta = ex_coingecko_meta\<rparr>"

definition ex_config :: parser_config where
  "ex_config = \<lparr>BASE_CURRENCY = ''USD'', FIAT_CURRENCIES = [''EUR'', ''GBP'', ''USD''],
                  EXCHANGERATE_API_KEY = ''secret''\<rparr>"

definition ex_payload_zero :: er_payload where
  "ex_payload_zero =
     \<lparr>ep_result = Some ''success'', ep_error_type = None,
      ep_rates = [''EUR'' \<mapsto> 0, ''GBP'' \<mapsto> 4, ''USD'' \<mapsto> 1],
      ep_time_last_update_utc = None\<rparr>"

definition ex_response_zero :: http_response where
  "ex_response_zero = \<lparr>status_code = 200, resp_text = [], resp_etag = None,
                         resp_json = Some ex_payload_zero\<rparr>"

definition ex_to_iso :: "string \<Rightarrow> string option" where
  "ex_to_iso utc_str = None"

definition ex_fetch_down :: "(string + real pydict) \<times> client_meta" where
  "ex_fetch_down = (Inl ''connection refused'', ex_no_meta)"

definition ex_core_state :: core_state where
  "ex_core_state = \<lparr>cs_cached = ex_snapshot_jan1, cs_db = ex_storage\<rparr>"

definition ex_snapshot_zero :: snapshot where
  "ex_snapshot_zero =
     \<lparr>pairs = [(''EUR_USD'', ex_point_jan1),
               (''GBP_USD'', \<lparr>rp_rate = 4, rp_updated_at = ''2024-01-02T00:00:00Z'', rp_source = ''ExchangeRate-API''\<rparr>),
               (''RUB_USD'', \<lparr>rp_rate = 0, rp_updated_at = ''2024-01-02T00:00:00Z'', rp_source = ''ExchangeRate-API''\<rparr>)],
      last_refresh = Some ''2024-01-02T00:00:00Z''\<rparr>"

definition ex_core_state_zero :: core_state where
  "ex_core_state_zero = \<lparr>cs_cached = ex_snapshot_zero, cs_db = ex_storage\<rparr>"

section \<open>Properties of the snapshot store\<close>

lemma parse_jan1: "parse_dt fromisoformat_basic ''2024-01-01T00:00:00Z'' = Some (Aware 1704067200000000)"
  by code_simp

lemma parse_jan2: "parse_dt fromisoformat_basic ''2024-01-02T00:00:00Z'' = Some (Aware 1704153600000000)"
  by code_simp

lemma parse_naive: "parse_dt fromisoformat_basic ''2023-12-31T00:00:00'' = Some (Naive 1703980800000000)"
  by code_simp

lemma merge_step_other:
  "k' \<noteq> k \<Longrightarrow> map_of (merge_step fiso k v cur) k' = map_of cur k'"
  by (simp add: merge_step_def update_conv' split: option.splits bool.splits)

lemma merge_step_same:
  "map_of (merge_step fiso k v cur) k =
     (case map_of cur k of None \<Rightarrow> Some v
      | Some old \<Rightarrow> if incoming_newer fiso v old = Some False then Some old else Some v)"
  by (simp add: merge_step_def update_conv' split: option.splits bool.splits)

lemma merge_step_keys:
  "fst ` set (merge_step fiso k v cur) = insert k (fst ` set cur)"
  by (auto simp add: merge_step_def AList.dom_update split: option.splits bool.splits
      dest: map_of_SomeD intro: rev_image_eqI)

lemma merge_loop_other:
  "k' \<notin> fst ` set ps \<Longrightarrow> map_of (merge_loop fiso ps cur) k' = map_of cur k'"
  by (induction ps arbitrary: cur) (auto simp: merge_step_other)

lemma merge_loop_keys:
  "fst ` set (merge_loop fiso ps cur) = fst ` set ps \<union> fst ` set cur"
  by (induction fiso ps cur rule: merge_loop.induct) (simp_all add: merge_step_keys Un_commute)

lemma merge_loop_rule:
  "distinct (map fst ps) \<Longrightarrow> (k, v) \<in> set ps \<Longrightarrow>
     map_of (merge_loop fiso ps cur) k = map_of (merge_step fiso k v cur) k"
proof (induction ps arbitrary: cur)
  case Nil
  then show ?case by simp
next
  case (Cons p ps)
  obtain k0 v0 where p: "p = (k0, v0)" by (cases p)
  show ?case
  proof (cases "(k, v) = p")
    case True
    with Cons.prems p have "k \<notin> fst ` set ps" by auto
    with True p show ?thesis by (simp add: merge_loop_other)
  next
    case False
    with Cons.prems p have in_ps: "(k, v) \<in> set ps" and ne: "k \<noteq> k0"
      by (auto simp: rev_image_eqI)
    from Cons.prems have "distinct (map fst ps)" by simp
    from Cons.IH [OF this in_ps]
    have "map_of (merge_loop fiso ps (merge_step fiso k0 v0 cur)) k
            = map_of (merge_step fiso k v (merge_step fiso k0 v0 cur)) k" .
    also have "\<dots> = map_of (merge_step fiso k v cur) k"
      using ne by (simp add: merge_step_same merge_step_other)
    finally show ?thesis using p by simp
  qed
qed

lemma incoming_newer_cases:
  "incoming_newer fiso v old =
     (case (parse_dt fiso (rp_updated_at v), parse_dt fiso (rp_updated_at old)) of
        (Some (Aware a), Some (Aware b)) \<Rightarrow> Some (a > b)
      | (Some (Naive a), Some (Naive b)) \<Rightarrow> Some (a > b)
      | _ \<Rightarrow> None)"
  by (simp add: incoming_newer_def split: option.splits pydatetime.splits)

lemma merge_step_later_absorbs:
  assumes p1: "parse_dt fiso (rp_updated_at p1) = Some t1"
      and p2: "parse_dt fiso (rp_updated_at p2) = Some t2"
      and gt: "dt_gt t2 t1 = Some True"
  shows "merge_step fiso k p2 (merge_step fiso k p1 cur) = merge_step fiso k p2 cur"
    and "merge_step fiso k p1 (merge_step fiso k p2 cur) = merge_step fiso k p2 cur"
proof -
  have n21: "incoming_newer fiso p2 p1 = Some True"
    using p1 p2 gt by (simp add: incoming_newer_def)
  have n12: "incoming_newer fiso p1 p2 = Some False"
    using p1 p2 gt by (cases t1; cases t2) (simp_all add: incoming_newer_def)
  have newer: "incoming_newer fiso p2 c = Some True" if "incoming_newer fiso p1 c = Some True" for c
    using that p1 p2 gt
    by (cases t1; cases t2) (auto simp add: incoming_newer_cases split: option.splits pydatetime.splits)
  have raises: "incoming_newer fiso p2 c = None" if "incoming_newer fiso p1 c = None" for c
    using that p1 p2 gt
    by (cases t1; cases t2) (auto simp add: incoming_newer_cases split: option.splits pydatetime.splits)
  have older: "incoming_newer fiso p1 c = Some False" if "incoming_newer fiso p2 c = Some False" for c
    using that p1 p2 gt
    by (cases t1; cases t2) (auto simp add: incoming_newer_cases split: option.splits pydatetime.splits)
  show "merge_step fiso k p2 (merge_step fiso k p1 cur) = merge_step fiso k p2 cur"
  proof (cases "map_of cur k")
    case None
    then show ?thesis by (simp add: merge_step_def update_conv' n21)
  next
    case (Some c)
    show ?thesis
    proof (cases "incoming_newer fiso p1 c")
      case None
      with Some raises[OF None] show ?thesis by (simp add: merge_step_def update_conv' n21)
    next
      case (Some b)
      with \<open>map_of cur k = Some c\<close> newer show ?thesis
        by (cases b) (simp_all add: merge_step_def update_conv' n21)
    qed
  qed
  show "merge_step fiso k p1 (merge_step fiso k p2 cur) = merge_step fiso k p2 cur"
  proof (cases "map_of cur k")
    case None
    then show ?thesis by (simp add: merge_step_def update_conv' n12)
  next
    case (Some c)
    show ?thesis
    proof (cases "incoming_newer fiso p2 c")
      case None
      with Some show ?thesis by (simp add: merge_step_def update_conv' n12)
    next
      case (Some b)
      with \<open>map_of cur k = Some c\<close> older show ?thesis
        by (cases b) (simp_all add: merge_step_def update_conv' n12)
    qed
  qed
qed

text \<open>
  C1. Merge rule of \<open>write_snapshot\<close> for a payload with distinct keys
  (a dict): a key absent from the stored snapshot is inserted; a key that is present is
  replaced when the incoming \<open>updated_at\<close> is strictly newer, when either timestamp does
  not parse, and also when both parse but one is naive and the other aware (the
  comparison raises); otherwise the stored point stays. For two points of one key whose
  timestamps parse and compare, the second strictly later than the first, writing both
  in either order leaves the same pairs as writing the later one alone, so the later
  one is kept when the key was absent before.
\<close>

theorem merge_rule_by_recency:
  "(distinct (map fst ps) \<and> (k, v) \<in> set ps \<longrightarrow>
      map_of (pairs (write_snapshot fiso ps ts s)) k =
        (case map_of (pairs s) k of
           None \<Rightarrow> Some v
         | Some old \<Rightarrow>
             (case (parse_dt fiso (rp_updated_at v), parse_dt fiso (rp_updated_at old)) of
                (Some (Aware a), Some (Aware b)) \<Rightarrow> if a > b then Some v else Some old
              | (Some (Naive a), Some (Naive b)) \<Rightarrow> if a > b then Some v else Some old
              | _ \<Rightarrow> Some v)))
   \<and> (parse_dt fiso (rp_updated_at p1) = Some t1 \<and> parse_dt fiso (rp_updated_at p2) = Some t2
        \<and> dt_gt t2 t1 = Some True \<longrightarrow>
        pairs (write_snapshot fiso [(k', p2)] ts2 (write_snapshot fiso [(k', p1)] ts1 s))
          = pairs (write_snapshot fiso [(k', p2)] ts2 s)
      \<and> pairs (write_snapshot fiso [(k', p1)] ts1 (write_snapshot fiso [(k', p2)] ts2 s))
          = pairs (write_snapshot fiso [(k', p2)] ts2 s)
      \<and> (map_of (pairs s) k' = None \<longrightarrow>
           map_of (pairs (write_snapshot fiso [(k', p2)] ts2 s)) k' = Some p2))"
proof (intro conjI impI)
  assume h: "distinct (map fst ps) \<and> (k, v) \<in> set ps"
  then have "map_of (merge_loop fiso ps (pairs s)) k = map_of (merge_step fiso k v (pairs s)) k"
    by (simp add: merge_loop_rule)
  then show "map_of (pairs (write_snapshot fiso ps ts s)) k =
        (case map_of (pairs s) k of
           None \<Rightarrow> Some v
         | Some old \<Rightarrow>
             (case (parse_dt fiso (rp_updated_at v), parse_dt fiso (rp_updated_at old)) of
                (Some (Aware a), Some (Aware b)) \<Rightarrow> if a > b then Some v else Some old
              | (Some (Naive a), Some (Naive b)) \<Rightarrow> if a > b then Some v else Some old
              | _ \<Rightarrow> Some v))"
    by (simp add: write_snapshot_def merge_step_same incoming_newer_cases
        split: option.splits pydatetime.splits)
next
  assume h: "parse_dt fiso (rp_updated_at p1) = Some t1 \<and> parse_dt fiso (rp_updated_at p2) = Some t2
        \<and> dt_gt t2 t1 = Some True"
  then show "pairs (write_snapshot fiso [(k', p2)] ts2 (write_snapshot fiso [(k', p1)] ts1 s))
          = pairs (write_snapshot fiso [(k', p2)] ts2 s)"
    by (simp add: write_snapshot_def merge_step_later_absorbs(1))
  from h show "pairs (write_snapshot fiso [(k', p1)] ts1 (write_snapshot fiso [(k', p2)] ts2 s))
          = pairs (write_snapshot fiso [(k', p2)] ts2 s)"
    by (simp add: write_snapshot_def merge_step_later_absorbs(2))
next
  assume "map_of (pairs s) k' = None"
  then show "map_of (pairs (write_snapshot fiso [(k', p2)] ts2 s)) k' = Some p2"
    by (simp add: write_snapshot_def merge_step_same)
qed

theorem merge_rule_by_recency_witness:
  "distinct (map fst [(''EUR_USD'', ex_point_jan2)])
   \<and> (''EUR_USD'', ex_point_jan2) \<in> set [(''EUR_USD'', ex_point_jan2)]
   \<and> map_of (pairs (write_snapshot fromisoformat_basic [(''EUR_USD'', ex_point_jan2)]
                ''2024-01-02T00:00:05Z'' ex_snapshot_jan1)) ''EUR_USD'' = Some ex_point_jan2
   \<and> parse_dt fromisoformat_basic (rp_updated_at ex_point_jan1) = Some (Aware 1704067200000000)
   \<and> parse_dt fromisoformat_basic (rp_updated_at ex_point_jan2) = Some (Aware 1704153600000000)
   \<and> dt_gt (Aware 1704153600000000) (Aware 1704067200000000) = Some True
   \<and> pairs (write_snapshot fromisoformat_basic [(''BTC_USD'', ex_point_jan1)] ''2024-01-01T00:00:05Z''
        (write_snapshot fromisoformat_basic [(''BTC_USD'', ex_point_jan2)] ''2024-01-02T00:00:05Z''
           ex_snapshot_jan1))
       = pairs (write_snapshot fromisoformat_basic [(''BTC_USD'', ex_point_jan2)] ''2024-01-02T00:00:05Z''
           ex_snapshot_jan1)
   \<and> map_of (pairs ex_snapshot_jan1) ''BTC_USD'' = None
   \<and> map_of (pairs (write_snapshot fromisoformat_basic [(''BTC_USD'', ex_point_jan2)]
          ''2024-01-02T00:00:05Z'' ex_snapshot_jan1)) ''BTC_USD'' = Some ex_point_jan2"
  using merge_rule_by_recency [of "[(''EUR_USD'', ex_point_jan2)]" "''EUR_USD''" ex_point_jan2
      fromisoformat_basic "''2024-01-02T00:00:05Z''" ex_snapshot_jan1
      ex_point_jan1 "Aware 1704067200000000" ex_point_jan2 "Aware 1704153600000000"
      "''BTC_USD''" "''2024-01-02T00:00:05Z''" "''2024-01-01T00:00:05Z''"]
  by (simp add: parse_jan1 parse_jan2 ex_point_jan1_def ex_point_jan2_def ex_snapshot_jan1_def)

theorem merge_rule_counterexample:
  "parse_dt fromisoformat_basic (rp_updated_at ex_point_naive) = Some (Naive 1703980800000000)
   \<and> parse_dt fromisoformat_basic (rp_updated_at ex_point_jan2) = Some (Aware 1704153600000000)
   \<and> map_of (pairs (write_snapshot fromisoformat_basic [(''EUR_USD'', ex_point_naive)] ''2024-01-03T00:00:00Z''
         (write_snapshot fromisoformat_basic [(''EUR_USD'', ex_point_jan2)] ''2024-01-02T00:00:05Z''
            ex_empty_snapshot))) ''EUR_USD'' = Some ex_point_naive
   \<and> map_of (pairs (write_snapshot fromisoformat_basic [(''EUR_USD'', ex_point_jan2)] ''2024-01-03T00:00:00Z''
         (write_snapshot fromisoformat_basic [(''EUR_USD'', ex_point_naive)] ''2024-01-02T00:00:05Z''
            ex_empty_snapshot))) ''EUR_USD'' = Some ex_point_jan2"
  by (simp add: parse_jan2 parse_naive ex_point_naive_def ex_point_jan2_def ex_empty_snapshot_def
      write_snapshot_def merge_step_def incoming_newer_def)

lemma merge_step_fix:
  "map_of cur k = Some v \<or> (\<exists>old. map_of cur k = Some old \<and> incoming_newer fiso v old = Some False)
     \<Longrightarrow> merge_step fiso k v cur = cur"
  by (auto simp add: merge_step_def AList.update_triv split: option.splits bool.splits)

lemma merge_loop_fix:
  "(\<And>k v. (k, v) \<in> set ps \<Longrightarrow> merge_step fiso k v cur = cur) \<Longrightarrow> merge_loop fiso ps cur = cur"
  by (induction ps) auto

lemma merge_loop_idem:
  assumes "distinct (map fst ps)"
  shows "merge_loop fiso ps (merge_loop fiso ps cur) = merge_loop fiso ps cur"
proof (rule merge_loop_fix)
  fix k v assume kv: "(k, v) \<in> set ps"
  let ?R = "merge_loop fiso ps cur"
  have "map_of ?R k = map_of (merge_step fiso k v cur) k"
    using assms kv by (rule merge_loop_rule)
  then have "map_of ?R k = Some v \<or> (\<exists>old. map_of ?R k = Some old \<and> incoming_newer fiso v old = Some False)"
    by (auto simp: merge_step_same split: option.splits if_splits)
  then show "merge_step fiso k v ?R = ?R" by (rule merge_step_fix)
qed

text \<open>
  C7. Merge idempotence: for every snapshot and every payload (a dict, so its keys are
  distinct) with its \<open>refreshed_at\<close>, writing the payload a second time leaves the
  snapshot exactly as the first write left it, key order included.
\<close>

theorem merge_write_idempotent:
  "distinct (map fst ps) \<Longrightarrow>
     write_snapshot fiso ps ts (write_snapshot fiso ps ts s) = write_snapshot fiso ps ts s"
  by (simp add: write_snapshot_def merge_loop_idem)

theorem merge_write_idempotent_witness:
  "distinct (map fst [(''EUR_USD'', ex_point_jan2), (''BTC_USD'', ex_point_naive)])
   \<and> write_snapshot fromisoformat_basic [(''EUR_USD'', ex_point_jan2), (''BTC_USD'', ex_point_naive)]
        ''2024-01-02T00:00:05Z''
        (write_snapshot fromisoformat_basic [(''EUR_USD'', ex_point_jan2), (''BTC_USD'', ex_point_naive)]
           ''2024-01-02T00:00:05Z'' ex_snapshot_jan1)
     = \<lparr>pairs = [(''EUR_USD'', ex_point_jan2), (''GBP_USD'', ex_point_jan1), (''BTC_USD'', ex_point_naive)],
        last_refresh = Some ''2024-01-02T00:00:05Z''\<rparr>"
proof -
  have d: "distinct (map fst [(''EUR_USD'', ex_point_jan2), (''BTC_USD'', ex_point_naive)])"
    by simp
  have "write_snapshot fromisoformat_basic [(''EUR_USD'', ex_point_jan2), (''BTC_USD'', ex_point_naive)]
           ''2024-01-02T00:00:05Z'' ex_snapshot_jan1
     = \<lparr>pairs = [(''EUR_USD'', ex_point_jan2), (''GBP_USD'', ex_point_jan1), (''BTC_USD'', ex_point_naive)],
        last_refresh = Some ''2024-01-02T00:00:05Z''\<rparr>"
    by (simp add: write_snapshot_def merge_step_def incoming_newer_def parse_jan1 parse_jan2
        ex_snapshot_jan1_def ex_point_jan1_def ex_point_jan2_def)
  with d merge_write_idempotent [OF d, of fromisoformat_basic "''2024-01-02T00:00:05Z''" ex_snapshot_jan1]
  show ?thesis by simp
qed

text \<open>
  C9. Frame of a merge write: a pair key that is not in the payload keeps exactly its
  prior rate point, and every key of the prior snapshot is still a key afterwards.
  (The snapshot has no fields besides \<open>pairs\<close> and \<open>last_refresh\<close>.)
\<close>

theorem merge_write_frame:
  "(\<forall>k. k \<notin> fst ` set ps \<longrightarrow>
        map_of (pairs (write_snapshot fiso ps ts s)) k = map_of (pairs s) k)
   \<and> fst ` set (pairs s) \<subseteq> fst ` set (pairs (write_snapshot fiso ps ts s))"
  by (simp add: write_snapshot_def merge_loop_other merge_loop_keys)

theorem merge_write_frame_witness:
  "''GBP_USD'' \<notin> fst ` set [(''EUR_USD'', ex_point_jan2)]
   \<and> map_of (pairs (write_snapshot fromisoformat_basic [(''EUR_USD'', ex_point_jan2)]
         ''2024-01-02T00:00:05Z'' ex_snapshot_jan1)) ''GBP_USD'' = Some ex_point_jan1
   \<and> {''EUR_USD'', ''GBP_USD''} \<subseteq> fst ` set (pairs (write_snapshot fromisoformat_basic
         [(''EUR_USD'', ex_point_jan2)] ''2024-01-02T00:00:05Z'' ex_snapshot_jan1))"
  using merge_write_frame [of "[(''EUR_USD'', ex_point_jan2)]" fromisoformat_basic
      "''2024-01-02T00:00:05Z''" ex_snapshot_jan1]
  by (simp add: ex_snapshot_jan1_def)

section \<open>Properties of the history log\<close>

lemma append_loop_filter:
  "append_loop ids es h = h @ filter (\<lambda>e. he_id e \<notin> ids) es"
  by (induction es arbitrary: h) simp_all

lemma set_map_filter_new:
  "set (map f (filter (\<lambda>e. f e \<notin> set (map f h)) es)) = set (map f es) - set (map f h)"
  by auto

lemma distinct_map_append_new:
  "distinct (map f h) \<Longrightarrow> distinct (map f es) \<Longrightarrow>
     distinct (map f (h @ filter (\<lambda>e. f e \<notin> set (map f h)) es))"
  by (auto simp add: distinct_map_filter) (metis imageI)

text \<open>
  When the appended list has no repeated ids, and the stored history has none, the
  append leaves one row per id.
\<close>

lemma append_history_distinct_ids:
  assumes "distinct (map he_id history)" and "distinct (map he_id entries)"
  shows "distinct (map he_id (append_history entries history))"
    and "length (append_history entries history)
           = card (set (map he_id history) \<union> set (map he_id entries))"
proof -
  let ?new = "filter (\<lambda>e. he_id e \<notin> set (map he_id history)) entries"
  have eq: "append_history entries history = history @ ?new"
    by (simp only: append_history_def append_loop_filter)
  show d: "distinct (map he_id (append_history entries history))"
    unfolding eq using assms by (rule distinct_map_append_new)
  have "set (map he_id (history @ ?new)) = set (map he_id history) \<union> set (map he_id entries)"
    unfolding map_append set_append set_map_filter_new by blast
  then have "card (set (map he_id history) \<union> set (map he_id entries))
          = length (map he_id (append_history entries history))"
    using d unfolding eq by (metis distinct_card)
  then show "length (append_history entries history)
           = card (set (map he_id history) \<union> set (map he_id entries))"
    by simp
qed

text \<open>
  C4. History dedup when the appended list repeats an id. On the empty history, a list
  holding the same entry twice is appended whole: the ids already present are collected
  once, before the loop, so the second occurrence is not recognised, and the history
  ends with two rows of one id, while the ids of history and list together are one.
\<close>

theorem append_history_repeated_id:
  "append_history [ex_entry, ex_entry] [] = [ex_entry, ex_entry]
   \<and> \<not> distinct (map he_id (append_history [ex_entry, ex_entry] []))
   \<and> length (append_history [ex_entry, ex_entry] []) = 2
   \<and> card (set (map he_id []) \<union> set (map he_id [ex_entry, ex_entry])) = 1"
  by (simp add: append_history_def)

section \<open>Properties of the synchronizer\<close>

lemma process_rates_exc:
  "fst (process_rates id_map meta src upd rates st) =
     (if list_all (\<lambda>p. split_once CHR ''_'' (fst p) \<noteq> None) rates then None
      else Some ''not enough values to unpack (expected 2, got 1)'')"
  by (induction id_map meta src upd rates st rule: process_rates.induct)
     (auto simp add: Let_def split: option.splits)

lemma process_rates_count:
  "list_all (\<lambda>p. split_once CHR ''_'' (fst p) \<noteq> None) rates \<Longrightarrow>
     snd (snd (snd (process_rates id_map meta src upd rates (cmb, h, n)))) = n + length rates"
  by (induction id_map meta src upd rates "(cmb, h, n)" arbitrary: cmb h n rule: process_rates.induct)
     (auto simp add: Let_def split: option.splits)

lemma process_rates_other:
  "k \<notin> fst ` set rates \<Longrightarrow>
     map_of (fst (snd (process_rates id_map meta src upd rates (cmb, h, n)))) k = map_of cmb k"
  by (induction id_map meta src upd rates "(cmb, h, n)" arbitrary: cmb h n rule: process_rates.induct)
     (auto simp add: Let_def update_conv' split: option.splits)

lemma process_rates_keys:
  "fst ` set cmb \<subseteq> fst ` set (fst (snd (process_rates id_map meta src upd rates (cmb, h, n))))"
  by (induction id_map meta src upd rates "(cmb, h, n)" arbitrary: cmb h n rule: process_rates.induct)
     (auto simp add: Let_def AList.dom_update split: option.splits)

lemma process_rates_stored:
  "list_all (\<lambda>p. split_once CHR ''_'' (fst p) \<noteq> None) rates \<Longrightarrow> distinct (map fst rates) \<Longrightarrow>
   (k, r) \<in> set rates \<Longrightarrow>
     map_of (fst (snd (process_rates id_map meta src upd rates (cmb, h, n)))) k
       = Some \<lparr>rp_rate = r, rp_updated_at = upd, rp_source = src\<rparr>"
proof (induction id_map meta src upd rates "(cmb, h, n)" arbitrary: cmb h n rule: process_rates.induct)
  case (1 id_map meta src updated_at)
  then show ?case by simp
next
  case (2 id_map meta src updated_at pair r' rest combined history_entries count)
  from "2.prems"(1) obtain a b where sp: "split_once CHR ''_'' pair = Some (a, b)"
    by auto
  show ?case
  proof (cases "(k, r) = (pair, r')")
    case True
    with "2.prems"(2) have "k \<notin> fst ` set rest" by auto
    with True sp show ?thesis
      by (simp add: Let_def process_rates_other update_conv')
  next
    case False
    with "2.prems" have "(k, r) \<in> set rest" "distinct (map fst rest)"
      "list_all (\<lambda>p. split_once CHR ''_'' (fst p) \<noteq> None) rest"
      by auto
    with "2.hyps" sp show ?thesis
      by (simp add: Let_def)
  qed
qed

lemma process_rates_keys_all:
  "list_all (\<lambda>p. split_once CHR ''_'' (fst p) \<noteq> None) rates \<Longrightarrow>
     fst ` set rates \<subseteq> fst ` set (fst (snd (process_rates id_map meta src upd rates (cmb, h, n))))"
proof (induction id_map meta src upd rates "(cmb, h, n)" arbitrary: cmb h n rule: process_rates.induct)
  case (1 id_map meta src updated_at)
  then show ?case by simp
next
  case (2 id_map meta src updated_at pair r' rest combined history_entries count)
  from "2.prems"(1) obtain a b where sp: "split_once CHR ''_'' pair = Some (a, b)"
    by auto
  let ?c = "AList.update pair \<lparr>rp_rate = r', rp_updated_at = updated_at, rp_source = src\<rparr> combined"
  have "pair \<in> fst ` set ?c" by (simp add: AList.dom_update)
  moreover have "fst ` set ?c \<subseteq> fst ` set (fst (snd (process_rates id_map meta src updated_at rest
        (?c, history_entries @ [\<lparr>he_id = a @ ''_'' @ b @ ''_'' @ updated_at,
                    he_from_currency = a, he_to_currency = b, he_rate = r',
                    he_timestamp = updated_at, he_source = src,
                    he_meta = \<lparr>hm_raw_id = id_map a, hm_request_ms = cm_request_ms meta,
                               hm_status_code = cm_status_code meta, hm_etag = cm_etag meta\<rparr>\<rparr>], count + 1))))"
    by (rule process_rates_keys)
  moreover from "2.prems" have "list_all (\<lambda>p. split_once CHR ''_'' (fst p) \<noteq> None) rest" by simp
  ultimately show ?case using "2.hyps" sp
    by (simp add: Let_def) blast
qed

lemma client_step_total:
  "ua_total (client_step id_map now c acc)
     = ua_total acc + (if client_succeeds c then length (client_rates c) else 0)"
proof (cases "cl_fetch c")
  case (Inl e)
  then show ?thesis
    by (simp add: client_step_def Let_def record_failure_def client_succeeds_def)
next
  case (Inr rates)
  obtain exc cmb h n where pr: "process_rates id_map (cl_last_meta c) (client_source c)
      (client_updated_at now c) rates (ua_combined acc, ua_history_entries acc, 0) = (exc, cmb, h, n)"
    by (cases "process_rates id_map (cl_last_meta c) (client_source c)
      (client_updated_at now c) rates (ua_combined acc, ua_history_entries acc, 0)") auto
  from process_rates_exc [of id_map "cl_last_meta c" "client_source c" "client_updated_at now c" rates
      "(ua_combined acc, ua_history_entries acc, 0)"] pr
  have exc: "exc = (if client_succeeds c then None
      else Some ''not enough values to unpack (expected 2, got 1)'')"
    using Inr by (simp add: client_succeeds_def)
  have "client_succeeds c \<Longrightarrow> n = length rates"
    using process_rates_count [of rates id_map "cl_last_meta c" "client_source c"
        "client_updated_at now c" "ua_combined acc" "ua_history_entries acc" 0] pr Inr
    by (simp add: client_succeeds_def)
  with Inr pr exc show ?thesis
    by (simp add: client_step_def Let_def record_failure_def client_rates_def)
qed

lemma client_step_errors:
  "ua_errors (client_step id_map now c acc)
     = ua_errors acc @ (if client_succeeds c then []
                        else [''Failed to fetch from '' @ cl_name c @ '': '' @ client_error c])"
proof (cases "cl_fetch c")
  case (Inl e)
  then show ?thesis
    by (simp add: client_step_def Let_def record_failure_def client_succeeds_def client_error_def)
next
  case (Inr rates)
  obtain exc cmb h n where pr: "process_rates id_map (cl_last_meta c) (client_source c)
      (client_updated_at now c) rates (ua_combined acc, ua_history_entries acc, 0) = (exc, cmb, h, n)"
    by (cases "process_rates id_map (cl_last_meta c) (client_source c)
      (client_updated_at now c) rates (ua_combined acc, ua_history_entries acc, 0)") auto
  from process_rates_exc [of id_map "cl_last_meta c" "client_source c" "client_updated_at now c" rates
      "(ua_combined acc, ua_history_entries acc, 0)"] pr
  have exc: "exc = (if client_succeeds c then None
      else Some ''not enough values to unpack (expected 2, got 1)'')"
    using Inr by (simp add: client_succeeds_def)
  with Inr pr show ?thesis
    by (simp add: client_step_def Let_def record_failure_def client_error_def)
qed

lemma client_step_sources:
  "ua_sources (client_step id_map now c acc)
     = AList.update (cl_name c) (source_entry c) (ua_sources acc)"
proof (cases "cl_fetch c")
  case (Inl e)
  then show ?thesis
    by (simp add: client_step_def Let_def record_failure_def client_succeeds_def client_error_def
        source_entry_def)
next
  case (Inr rates)
  obtain exc cmb h n where pr: "process_rates id_map (cl_last_meta c) (client_source c)
      (client_updated_at now c) rates (ua_combined acc, ua_history_entries acc, 0) = (exc, cmb, h, n)"
    by (cases "process_rates id_map (cl_last_meta c) (client_source c)
      (client_updated_at now c) rates (ua_combined acc, ua_history_entries acc, 0)") auto
  from process_rates_exc [of id_map "cl_last_meta c" "client_source c" "client_updated_at now c" rates
      "(ua_combined acc, ua_history_entries acc, 0)"] pr
  have exc: "exc = (if client_succeeds c then None
      else Some ''not enough values to unpack (expected 2, got 1)'')"
    using Inr by (simp add: client_succeeds_def)
  have "client_succeeds c \<Longrightarrow> n = length rates"
    using process_rates_count [of rates id_map "cl_last_meta c" "client_source c"
        "client_updated_at now c" "ua_combined acc" "ua_history_entries acc" 0] pr Inr
    by (simp add: client_succeeds_def)
  with Inr pr exc show ?thesis
    by (simp add: client_step_def Let_def record_failure_def client_error_def source_entry_def
        client_rates_def)
qed

lemma client_step_combined:
  "ua_combined (client_step id_map now c acc)
     = (case cl_fetch c of
          Inl e \<Rightarrow> ua_combined acc
        | Inr rates \<Rightarrow> fst (snd (process_rates id_map (cl_last_meta c) (client_source c)
              (client_updated_at now c) rates (ua_combined acc, ua_history_entries acc, 0))))"
  by (auto simp add: client_step_def Let_def record_failure_def split: sum.splits prod.splits option.splits)

lemma client_step_combined_other:
  "k \<notin> fst ` set (client_rates c) \<Longrightarrow>
     map_of (ua_combined (client_step id_map now c acc)) k = map_of (ua_combined acc) k"
  by (cases "cl_fetch c") (simp_all add: client_step_combined client_rates_def process_rates_other)

lemma client_step_combined_keys:
  "fst ` set (ua_combined acc) \<subseteq> fst ` set (ua_combined (client_step id_map now c acc))"
  by (simp add: client_step_combined process_rates_keys split: sum.splits)

lemma client_step_combined_stored:
  "client_succeeds c \<Longrightarrow> distinct (map fst (client_rates c)) \<Longrightarrow> (k, r) \<in> set (client_rates c) \<Longrightarrow>
     map_of (ua_combined (client_step id_map now c acc)) k = Some (fetched_point now c r)"
  by (auto simp add: client_step_combined client_rates_def client_succeeds_def fetched_point_def
      process_rates_stored split: sum.splits)

lemma client_step_combined_keys_all:
  "client_succeeds c \<Longrightarrow>
     fst ` set (client_rates c) \<subseteq> fst ` set (ua_combined (client_step id_map now c acc))"
proof (cases "cl_fetch c")
  case (Inl e)
  then show ?thesis by (simp add: client_rates_def)
next
  case (Inr rates)
  assume "client_succeeds c"
  with Inr have "list_all (\<lambda>p. split_once CHR ''_'' (fst p) \<noteq> None) rates"
    by (simp add: client_succeeds_def)
  then have "fst ` set rates \<subseteq> fst ` set (fst (snd (process_rates id_map (cl_last_meta c)
      (client_source c) (client_updated_at now c) rates (ua_combined acc, ua_history_entries acc, 0))))"
    by (rule process_rates_keys_all)
  with Inr show ?thesis by (simp add: client_step_combined client_rates_def)
qed

lemma clients_loop_append:
  "clients_loop id_map now (xs @ ys) acc = clients_loop id_map now ys (clients_loop id_map now xs acc)"
  by (induction xs arbitrary: acc) simp_all

lemma clients_loop_total:
  "ua_total (clients_loop id_map now cs acc)
     = ua_total acc + sum_list (map (\<lambda>c. length (client_rates c)) (filter client_succeeds cs))"
  by (induction cs arbitrary: acc) (simp_all add: client_step_total)

lemma clients_loop_errors:
  "ua_errors (clients_loop id_map now cs acc)
     = ua_errors acc @ map (\<lambda>c. ''Failed to fetch from '' @ cl_name c @ '': '' @ client_error c)
                         (filter (\<lambda>c. \<not> client_succeeds c) cs)"
  by (induction cs arbitrary: acc) (simp_all add: client_step_errors)

lemma clients_loop_sources_other:
  "n \<notin> cl_name ` set cs \<Longrightarrow>
     map_of (ua_sources (clients_loop id_map now cs acc)) n = map_of (ua_sources acc) n"
  by (induction cs arbitrary: acc) (simp_all add: client_step_sources update_conv')

lemma clients_loop_sources:
  "distinct (map cl_name cs) \<Longrightarrow> c \<in> set cs \<Longrightarrow>
     map_of (ua_sources (clients_loop id_map now cs acc)) (cl_name c) = Some (source_entry c)"
proof (induction cs arbitrary: acc)
  case Nil
  then show ?case by simp
next
  case (Cons a cs)
  show ?case
  proof (cases "c = a")
    case True
    with Cons.prems have "cl_name c \<notin> cl_name ` set cs" by auto
    with True show ?thesis
      by (simp add: clients_loop_sources_other client_step_sources update_conv')
  next
    case False
    with Cons show ?thesis by simp
  qed
qed

lemma clients_loop_combined_other:
  "\<forall>c \<in> set cs. k \<notin> fst ` set (client_rates c) \<Longrightarrow>
     map_of (ua_combined (clients_loop id_map now cs acc)) k = map_of (ua_combined acc) k"
  by (induction cs arbitrary: acc) (simp_all add: client_step_combined_other)

lemma clients_loop_combined_keys:
  "fst ` set (ua_combined acc) \<subseteq> fst ` set (ua_combined (clients_loop id_map now cs acc))"
proof (induction cs arbitrary: acc)
  case Nil
  then show ?case by simp
next
  case (Cons a cs)
  have "fst ` set (ua_combined acc) \<subseteq> fst ` set (ua_combined (client_step id_map now a acc))"
    by (rule client_step_combined_keys)
  also have "\<dots> \<subseteq> fst ` set (ua_combined (clients_loop id_map now cs (client_step id_map now a acc)))"
    by (rule Cons.IH)
  finally show ?case by simp
qed

lemma clients_loop_combined_keys_all:
  assumes "c \<in> set cs" and "client_succeeds c"
  shows "fst ` set (client_rates c) \<subseteq> fst ` set (ua_combined (clients_loop id_map now cs acc))"
proof -
  from assms(1) obtain xs ys where cs: "cs = xs @ c # ys"
    by (auto simp add: in_set_conv_decomp)
  let ?a = "clients_loop id_map now xs acc"
  have "fst ` set (client_rates c) \<subseteq> fst ` set (ua_combined (client_step id_map now c ?a))"
    using assms(2) by (rule client_step_combined_keys_all)
  also have "\<dots> \<subseteq> fst ` set (ua_combined (clients_loop id_map now ys (client_step id_map now c ?a)))"
    by (rule clients_loop_combined_keys)
  finally show ?thesis by (simp add: cs clients_loop_append)
qed

lemma clients_loop_combined_stored:
  assumes "c \<in> set cs" and "client_succeeds c" and "distinct (map fst (client_rates c))"
    and "(k, r) \<in> set (client_rates c)"
    and "\<forall>c' \<in> set cs. c' \<noteq> c \<longrightarrow> k \<notin> fst ` set (client_rates c')"
  shows "map_of (ua_combined (clients_loop id_map now cs acc)) k = Some (fetched_point now c r)"
proof -
  from assms(1) obtain xs ys where cs: "cs = xs @ c # ys" and "c \<notin> set ys"
    by (meson split_list_last)
  with assms(5) have "\<forall>c' \<in> set ys. k \<notin> fst ` set (client_rates c')" by auto
  then have "map_of (ua_combined (clients_loop id_map now cs acc)) k
      = map_of (ua_combined (client_step id_map now c (clients_loop id_map now xs acc))) k"
    by (simp add: cs clients_loop_append clients_loop_combined_other)
  also have "\<dots> = Some (fetched_point now c r)"
    using assms(2,3,4) by (rule client_step_combined_stored)
  finally show ?thesis .
qed

lemma process_rates_distinct:
  "distinct (map fst cmb) \<Longrightarrow>
     distinct (map fst (fst (snd (process_rates id_map meta src upd rates (cmb, h, n)))))"
  by (induction id_map meta src upd rates "(cmb, h, n)" arbitrary: cmb h n rule: process_rates.induct)
     (auto simp add: Let_def distinct_update split: option.splits)

lemma clients_loop_combined_distinct:
  "distinct (map fst (ua_combined acc)) \<Longrightarrow>
     distinct (map fst (ua_combined (clients_loop id_map now cs acc)))"
  by (induction cs arbitrary: acc)
     (simp_all add: client_step_combined process_rates_distinct split: sum.splits)

text \<open>
  C2. Total failure: when the fetch of every client raises, \<open>run_update\<close> raises its
  \<open>RuntimeError\<close> and both files are as they were before the run.
\<close>

theorem run_update_all_clients_fail:
  "\<forall>c \<in> set clients. \<exists>e. cl_fetch c = Inl e \<Longrightarrow>
     run_update fiso id_map now clients st
       = (Inl (RuntimeError ''No rates fetched from any source''), st)"
proof -
  assume "\<forall>c \<in> set clients. \<exists>e. cl_fetch c = Inl e"
  then have "filter client_succeeds clients = []"
    by (auto simp add: filter_empty_conv client_succeeds_def)
  then have "ua_total (clients_loop id_map now clients initial_acc) = 0"
    by (simp add: clients_loop_total initial_acc_def)
  then show ?thesis by (simp add: run_update_def)
qed

theorem run_update_all_clients_fail_witness:
  "cl_fetch ex_coingecko_down = Inl ''CoinGecko: server error 503''
   \<and> cl_fetch ex_exchangerate_limited = Inl ''ExchangeRate-API: 429 Too Many Requests''
   \<and> run_update fromisoformat_basic Map.empty ''2024-01-02T00:00:05Z''
        [ex_coingecko_down, ex_exchangerate_limited] ex_storage
       = (Inl (RuntimeError ''No rates fetched from any source''), ex_storage)"
proof -
  have f: "cl_fetch ex_coingecko_down = Inl ''CoinGecko: server error 503''"
    "cl_fetch ex_exchangerate_limited = Inl ''ExchangeRate-API: 429 Too Many Requests''"
    by (simp_all add: ex_coingecko_down_def ex_exchangerate_limited_def)
  then have h: "\<forall>c \<in> set [ex_coingecko_down, ex_exchangerate_limited]. \<exists>e. cl_fetch c = Inl e"
    by simp
  from f run_update_all_clients_fail [OF h] show ?thesis by blast
qed

lemma process_rates_history:
  "fst (snd (snd (process_rates id_map (cl_last_meta c) (client_source c)
       (client_updated_at now c) rates (cmb, h, n))))
     = h @ fetched_entries id_map now c rates"
  by (induction rates arbitrary: cmb h n) (auto simp add: Let_def split: option.splits)

lemma client_step_history:
  "ua_history_entries (client_step id_map now c acc)
     = ua_history_entries acc @ client_entries id_map now c"
proof (cases "cl_fetch c")
  case (Inl e)
  then show ?thesis
    by (simp add: client_step_def Let_def record_failure_def client_entries_def client_rates_def)
next
  case (Inr rates)
  obtain exc cmb h n where pr: "process_rates id_map (cl_last_meta c) (client_source c)
      (client_updated_at now c) rates (ua_combined acc, ua_history_entries acc, 0) = (exc, cmb, h, n)"
    by (cases "process_rates id_map (cl_last_meta c) (client_source c)
      (client_updated_at now c) rates (ua_combined acc, ua_history_entries acc, 0)") auto
  from process_rates_history [of id_map c now rates "ua_combined acc" "ua_history_entries acc" 0] pr
  have "h = ua_history_entries acc @ fetched_entries id_map now c rates"
    by simp
  with Inr pr show ?thesis
    by (simp add: client_step_def Let_def record_failure_def client_entries_def client_rates_def
        split: option.splits)
qed

lemma clients_loop_history:
  "ua_history_entries (clients_loop id_map now cs acc)
     = ua_history_entries acc @ concat (map (client_entries id_map now) cs)"
  by (induction cs arbitrary: acc) (simp_all add: client_step_history)

lemma clients_loop_sources_last:
  assumes "cs = xs @ c # ys" and "cl_name c \<notin> cl_name ` set ys"
  shows "map_of (ua_sources (clients_loop id_map now cs acc)) (cl_name c) = Some (source_entry c)"
  using assms
  by (simp add: clients_loop_append clients_loop_sources_other client_step_sources update_conv')

lemma clients_loop_combined_last:
  assumes "cs = xs @ c # ys" and "client_succeeds c" and "distinct (map fst (client_rates c))"
    and "(k, r) \<in> set (client_rates c)"
    and "\<forall>c' \<in> set ys. k \<notin> fst ` set (client_rates c')"
  shows "map_of (ua_combined (clients_loop id_map now cs acc)) k = Some (fetched_point now c r)"
proof -
  have "map_of (ua_combined (clients_loop id_map now cs acc)) k
      = map_of (ua_combined (client_step id_map now c (clients_loop id_map now xs acc))) k"
    using assms(1,5) by (simp add: clients_loop_append clients_loop_combined_other)
  also have "\<dots> = Some (fetched_point now c r)"
    using assms(2,3,4) by (rule client_step_combined_stored)
  finally show ?thesis .
qed

lemma sum_list_eq_0_lengths:
  "(\<forall>c \<in> set cs. client_succeeds c \<longrightarrow> client_rates c = []) \<Longrightarrow>
     sum_list (map (\<lambda>c. length (client_rates c)) (filter client_succeeds cs)) = 0"
  by (induction cs) simp_all

text \<open>
  C3. Partial failure. When the succeeding clients returned no pair at all (also when a
  client succeeded with an empty dict), \<open>run_update\<close> raises its \<open>RuntimeError\<close> and
  leaves both files as they were. When some client succeeds with at least one pair,
  \<open>run_update\<close> returns a report and writes both files. The report has \<open>ok\<close> exactly when
  every client succeeded, \<open>total\<close> is the number of pairs of the succeeding clients,
  \<open>errors\<close> has one line per failing client, and the per-source entry under a class name
  is the count or the error of the last client of that name (of every client, when the
  names are distinct). The snapshot gets the run's \<open>last_refresh\<close>; a key no client
  returned keeps its stored point; every key of a succeeding client is a key afterwards;
  and a pair of a succeeding client that no later client returned is merged by the
  recency rule: inserted when the key was absent, replacing the stored point when its
  timestamp is strictly newer or not comparable, and leaving it otherwise. The history
  gets, after its old rows, the entries of all clients whose id it did not have.
\<close>

theorem run_update_partial_failure:
  "((\<forall>c \<in> set clients. client_succeeds c \<longrightarrow> client_rates c = []) \<longrightarrow>
      run_update fiso id_map now clients st
        = (Inl (RuntimeError ''No rates fetched from any source''), st))
   \<and> ((\<exists>c \<in> set clients. client_succeeds c \<and> client_rates c \<noteq> []) \<longrightarrow>
      (\<exists>rep st'. run_update fiso id_map now clients st = (Inr rep, st')
         \<and> sr_ok rep = (\<forall>c \<in> set clients. client_succeeds c)
         \<and> sr_total rep = sum_list (map (\<lambda>c. length (client_rates c)) (filter client_succeeds clients))
         \<and> sr_last_refresh rep = now
         \<and> sr_errors rep = map (\<lambda>c. ''Failed to fetch from '' @ cl_name c @ '': '' @ client_error c)
                              (filter (\<lambda>c. \<not> client_succeeds c) clients)
         \<and> (\<forall>xs c ys. clients = xs @ c # ys \<and> cl_name c \<notin> cl_name ` set ys \<longrightarrow>
               map_of (sr_sources rep) (cl_name c) = Some (source_entry c))
         \<and> (distinct (map cl_name clients) \<longrightarrow>
               (\<forall>c \<in> set clients. map_of (sr_sources rep) (cl_name c) = Some (source_entry c)))
         \<and> last_refresh (rates_file st') = Some now
         \<and> history_file st'
              = history_file st
                  @ filter (\<lambda>e. he_id e \<notin> set (map he_id (history_file st)))
                      (concat (map (client_entries id_map now) clients))
         \<and> (\<forall>k. (\<forall>c \<in> set clients. k \<notin> fst ` set (client_rates c)) \<longrightarrow>
               map_of (pairs (rates_file st')) k = map_of (pairs (rates_file st)) k)
         \<and> (\<forall>c \<in> set clients. client_succeeds c \<longrightarrow>
               fst ` set (client_rates c) \<subseteq> fst ` set (pairs (rates_file st')))
         \<and> (\<forall>xs c ys k r.
               clients = xs @ c # ys \<and> client_succeeds c \<and> distinct (map fst (client_rates c))
               \<and> (k, r) \<in> set (client_rates c)
               \<and> (\<forall>c' \<in> set ys. k \<notin> fst ` set (client_rates c'))
               \<longrightarrow> map_of (pairs (rates_file st')) k
                     = (case map_of (pairs (rates_file st)) k of
                          None \<Rightarrow> Some (fetched_point now c r)
                        | Some old \<Rightarrow>
                            (case (parse_dt fiso (client_updated_at now c),
                                   parse_dt fiso (rp_updated_at old)) of
                               (Some (Aware a), Some (Aware b)) \<Rightarrow>
                                 if a > b then Some (fetched_point now c r) else Some old
                             | (Some (Naive a), Some (Naive b)) \<Rightarrow>
                                 if a > b then Some (fetched_point now c r) else Some old
                             | _ \<Rightarrow> Some (fetched_point now c r))))))"
proof (intro conjI impI)
  assume "\<forall>c \<in> set clients. client_succeeds c \<longrightarrow> client_rates c = []"
  then have "ua_total (clients_loop id_map now clients initial_acc) = 0"
    by (simp add: clients_loop_total initial_acc_def sum_list_eq_0_lengths)
  then show "run_update fiso id_map now clients st
        = (Inl (RuntimeError ''No rates fetched from any source''), st)"
    by (simp add: run_update_def)
next
  assume h: "\<exists>c \<in> set clients. client_succeeds c \<and> client_rates c \<noteq> []"
  let ?acc = "clients_loop id_map now clients initial_acc"
  let ?st' = "st\<lparr>rates_file := write_snapshot fiso (ua_combined ?acc) now (rates_file st),
                 history_file := append_history (ua_history_entries ?acc) (history_file st)\<rparr>"
  let ?rep = "\<lparr>sr_ok = (ua_errors ?acc = []), sr_total = ua_total ?acc, sr_last_refresh = now,
               sr_errors = ua_errors ?acc, sr_sources = ua_sources ?acc\<rparr>"
  from h obtain c0 where c0: "c0 \<in> set clients" "client_succeeds c0" "client_rates c0 \<noteq> []"
    by blast
  have total: "ua_total ?acc
      = sum_list (map (\<lambda>c. length (client_rates c)) (filter client_succeeds clients))"
    by (simp add: clients_loop_total initial_acc_def)
  have "c0 \<in> set (filter client_succeeds clients)" using c0 by simp
  then have "length (client_rates c0)
      \<in> set (map (\<lambda>c. length (client_rates c)) (filter client_succeeds clients))"
    unfolding set_map by (rule imageI)
  then have "length (client_rates c0)
      \<le> sum_list (map (\<lambda>c. length (client_rates c)) (filter client_succeeds clients))"
    by (rule member_le_sum_list) simp
  moreover have "0 < length (client_rates c0)" using c0(3) by simp
  ultimately have pos: "ua_total ?acc \<noteq> 0" unfolding total by linarith
  have errors: "ua_errors ?acc
      = map (\<lambda>c. ''Failed to fetch from '' @ cl_name c @ '': '' @ client_error c)
            (filter (\<lambda>c. \<not> client_succeeds c) clients)"
    by (simp add: clients_loop_errors initial_acc_def)
  have run: "run_update fiso id_map now clients st = (Inr ?rep, ?st')"
    using pos by (simp add: run_update_def Let_def)
  have ok: "sr_ok ?rep = (\<forall>c \<in> set clients. client_succeeds c)"
    by (simp add: errors filter_empty_conv)
  have stamp: "sr_last_refresh ?rep = now" by simp
  have total': "sr_total ?rep
      = sum_list (map (\<lambda>c. length (client_rates c)) (filter client_succeeds clients))"
    using total by simp
  have errors': "sr_errors ?rep
      = map (\<lambda>c. ''Failed to fetch from '' @ cl_name c @ '': '' @ client_error c)
            (filter (\<lambda>c. \<not> client_succeeds c) clients)"
    using errors by simp
  have sources_last: "\<forall>xs c ys. clients = xs @ c # ys \<and> cl_name c \<notin> cl_name ` set ys \<longrightarrow>
      map_of (sr_sources ?rep) (cl_name c) = Some (source_entry c)"
    by (simp add: clients_loop_sources_last)
  have sources: "distinct (map cl_name clients) \<longrightarrow>
      (\<forall>c \<in> set clients. map_of (sr_sources ?rep) (cl_name c) = Some (source_entry c))"
    by (simp add: clients_loop_sources)
  have refreshed: "last_refresh (rates_file ?st') = Some now"
    by (simp add: write_snapshot_def)
  have history: "history_file ?st'
      = history_file st
          @ filter (\<lambda>e. he_id e \<notin> set (map he_id (history_file st)))
              (concat (map (client_entries id_map now) clients))"
    by (simp add: append_history_def append_loop_filter clients_loop_history initial_acc_def)
  have frame: "\<forall>k. (\<forall>c \<in> set clients. k \<notin> fst ` set (client_rates c)) \<longrightarrow>
      map_of (pairs (rates_file ?st')) k = map_of (pairs (rates_file st)) k"
  proof (intro allI impI)
    fix k assume none: "\<forall>c \<in> set clients. k \<notin> fst ` set (client_rates c)"
    then have "map_of (ua_combined ?acc) k = map_of (ua_combined initial_acc) k"
      by (rule clients_loop_combined_other)
    then have "map_of (ua_combined ?acc) k = None"
      by (simp add: initial_acc_def)
    then have "k \<notin> fst ` set (ua_combined ?acc)"
      by (simp add: map_of_eq_None_iff)
    then show "map_of (pairs (rates_file ?st')) k = map_of (pairs (rates_file st)) k"
      by (simp add: write_snapshot_def merge_loop_other)
  qed
  have keys: "\<forall>c \<in> set clients. client_succeeds c \<longrightarrow>
      fst ` set (client_rates c) \<subseteq> fst ` set (pairs (rates_file ?st'))"
  proof (intro ballI impI)
    fix c assume "c \<in> set clients" "client_succeeds c"
    then have "fst ` set (client_rates c) \<subseteq> fst ` set (ua_combined ?acc)"
      by (rule clients_loop_combined_keys_all)
    then show "fst ` set (client_rates c) \<subseteq> fst ` set (pairs (rates_file ?st'))"
      by (auto simp add: write_snapshot_def merge_loop_keys)
  qed
  have dist: "distinct (map fst (ua_combined ?acc))"
    by (rule clients_loop_combined_distinct) (simp add: initial_acc_def)
  have stored: "\<forall>xs c ys k r.
               clients = xs @ c # ys \<and> client_succeeds c \<and> distinct (map fst (client_rates c))
               \<and> (k, r) \<in> set (client_rates c)
               \<and> (\<forall>c' \<in> set ys. k \<notin> fst ` set (client_rates c'))
               \<longrightarrow> map_of (pairs (rates_file ?st')) k
                     = (case map_of (pairs (rates_file st)) k of
                          None \<Rightarrow> Some (fetched_point now c r)
                        | Some old \<Rightarrow>
                            (case (parse_dt fiso (client_updated_at now c),
                                   parse_dt fiso (rp_updated_at old)) of
                               (Some (Aware a), Some (Aware b)) \<Rightarrow>
                                 if a > b then Some (fetched_point now c r) else Some old
                             | (Some (Naive a), Some (Naive b)) \<Rightarrow>
                                 if a > b then Some (fetched_point now c r) else Some old
                             | _ \<Rightarrow> Some (fetched_point now c r)))"
  proof (intro allI impI)
    fix xs c ys k r
    assume a: "clients = xs @ c # ys \<and> client_succeeds c \<and> distinct (map fst (client_rates c))
               \<and> (k, r) \<in> set (client_rates c)
               \<and> (\<forall>c' \<in> set ys. k \<notin> fst ` set (client_rates c'))"
    then have "map_of (ua_combined ?acc) k = Some (fetched_point now c r)"
      by (intro clients_loop_combined_last [of clients xs c ys]) auto
    then have "(k, fetched_point now c r) \<in> set (ua_combined ?acc)"
      by (rule map_of_SomeD)
    with dist have "map_of (merge_loop fiso (ua_combined ?acc) (pairs (rates_file st))) k
        = map_of (merge_step fiso k (fetched_point now c r) (pairs (rates_file st))) k"
      by (rule merge_loop_rule)
    moreover have "rp_updated_at (fetched_point now c r) = client_updated_at now c"
      by (simp add: fetched_point_def)
    ultimately show "map_of (pairs (rates_file ?st')) k
                     = (case map_of (pairs (rates_file st)) k of
                          None \<Rightarrow> Some (fetched_point now c r)
                        | Some old \<Rightarrow>
                            (case (parse_dt fiso (client_updated_at now c),
                                   parse_dt fiso (rp_updated_at old)) of
                               (Some (Aware a), Some (Aware b)) \<Rightarrow>
                                 if a > b then Some (fetched_point now c r) else Some old
                             | (Some (Naive a), Some (Naive b)) \<Rightarrow>
                                 if a > b then Some (fetched_point now c r) else Some old
                             | _ \<Rightarrow> Some (fetched_point now c r)))"
      by (simp add: write_snapshot_def merge_step_same incoming_newer_cases
          split: option.splits pydatetime.splits)
  qed
  from run ok total' stamp errors' sources_last sources refreshed history frame keys stored
  show "\<exists>rep st'. run_update fiso id_map now clients st = (Inr rep, st')
         \<and> sr_ok rep = (\<forall>c \<in> set clients. client_succeeds c)
         \<and> sr_total rep = sum_list (map (\<lambda>c. length (client_rates c)) (filter client_succeeds clients))
         \<and> sr_last_refresh rep = now
         \<and> sr_errors rep = map (\<lambda>c. ''Failed to fetch from '' @ cl_name c @ '': '' @ client_error c)
                              (filter (\<lambda>c. \<not> client_succeeds c) clients)
         \<and> (\<forall>xs c ys. clients = xs @ c # ys \<and> cl_name c \<notin> cl_name ` set ys \<longrightarrow>
               map_of (sr_sources rep) (cl_name c) = Some (source_entry c))
         \<and> (distinct (map cl_name clients) \<longrightarrow>
               (\<forall>c \<in> set clients. map_of (sr_sources rep) (cl_name c) = Some (source_entry c)))
         \<and> last_refresh (rates_file st') = Some now
         \<and> history_file st'
              = history_file st
                  @ filter (\<lambda>e. he_id e \<notin> set (map he_id (history_file st)))
                      (concat (map (client_entries id_map now) clients))
         \<and> (\<forall>k. (\<forall>c \<in> set clients. k \<notin> fst ` set (client_rates c)) \<longrightarrow>
               map_of (pairs (rates_file st')) k = map_of (pairs (rates_file st)) k)
         \<and> (\<forall>c \<in> set clients. client_succeeds c \<longrightarrow>
               fst ` set (client_rates c) \<subseteq> fst ` set (pairs (rates_file st')))
         \<and> (\<forall>xs c ys k r.
               clients = xs @ c # ys \<and> client_succeeds c \<and> distinct (map fst (client_rates c))
               \<and> (k, r) \<in> set (client_rates c)
               \<and> (\<forall>c' \<in> set ys. k \<notin> fst ` set (client_rates c'))
               \<longrightarrow> map_of (pairs (rates_file st')) k
                     = (case map_of (pairs (rates_file st)) k of
                          None \<Rightarrow> Some (fetched_point now c r)
                        | Some old \<Rightarrow>
                            (case (parse_dt fiso (client_updated_at now c),
                                   parse_dt fiso (rp_updated_at old)) of
                               (Some (Aware a), Some (Aware b)) \<Rightarrow>
                                 if a > b then Some (fetched_point now c r) else Some old
                             | (Some (Naive a), Some (Naive b)) \<Rightarrow>
                                 if a > b then Some (fetched_point now c r) else Some old
                             | _ \<Rightarrow> Some (fetched_point now c r))))"
    by (intro exI [of _ ?rep] exI [of _ ?st'] conjI)
qed

theorem run_update_partial_failure_witness:
  "client_succeeds ex_exchangerate_ok \<and> client_rates ex_exchangerate_ok \<noteq> []
   \<and> \<not> client_succeeds ex_coingecko_down
   \<and> (\<exists>rep st'. run_update fromisoformat_basic Map.empty ''2024-01-02T00:00:05Z''
                     [ex_coingecko_down, ex_exchangerate_ok] ex_storage = (Inr rep, st')
        \<and> sr_ok rep = False
        \<and> sr_total rep = 2
        \<and> sr_last_refresh rep = ''2024-01-02T00:00:05Z''
        \<and> sr_errors rep = [''Failed to fetch from CoinGeckoClient: CoinGecko: server error 503'']
        \<and> map_of (sr_sources rep) ''CoinGeckoClient'' = Some (SourceFailed ''CoinGecko: server error 503'')
        \<and> map_of (sr_sources rep) ''ExchangeRateApiClient'' = Some (SourceOk 2)
        \<and> last_refresh (rates_file st') = Some ''2024-01-02T00:00:05Z''
        \<and> history_file st'
            = [ex_entry,
               \<lparr>he_id = ''EUR_USD_2024-01-02T00:00:00Z'', he_from_currency = ''EUR'',
                he_to_currency = ''USD'', he_rate = 3, he_timestamp = ''2024-01-02T00:00:00Z'',
                he_source = ''ExchangeRate-API'',
                he_meta = \<lparr>hm_raw_id = None, hm_request_ms = Some 80,
                           hm_status_code = Some 200, hm_etag = None\<rparr>\<rparr>,
               \<lparr>he_id = ''RUB_USD_2024-01-02T00:00:00Z'', he_from_currency = ''RUB'',
                he_to_currency = ''USD'', he_rate = 1 / 100, he_timestamp = ''2024-01-02T00:00:00Z'',
                he_source = ''ExchangeRate-API'',
                he_meta = \<lparr>hm_raw_id = None, hm_request_ms = Some 80,
                           hm_status_code = Some 200, hm_etag = None\<rparr>\<rparr>]
        \<and> map_of (pairs (rates_file ex_storage)) ''EUR_USD'' = Some ex_point_jan1
        \<and> map_of (pairs (rates_file st')) ''EUR_USD''
            = Some \<lparr>rp_rate = 3, rp_updated_at = ''2024-01-02T00:00:00Z'', rp_source = ''ExchangeRate-API''\<rparr>
        \<and> map_of (pairs (rates_file st')) ''RUB_USD''
            = Some \<lparr>rp_rate = 1 / 100, rp_updated_at = ''2024-01-02T00:00:00Z'', rp_source = ''ExchangeRate-API''\<rparr>
        \<and> map_of (pairs (rates_file st')) ''GBP_USD'' = Some ex_point_jan1)
   \<and> client_succeeds ex_coingecko_empty \<and> client_rates ex_coingecko_empty = []
   \<and> \<not> client_succeeds ex_exchangerate_limited
   \<and> run_update fromisoformat_basic Map.empty ''2024-01-02T00:00:05Z''
        [ex_coingecko_empty, ex_exchangerate_limited] ex_storage
       = (Inl (RuntimeError ''No rates fetched from any source''), ex_storage)"
proof -
  let ?now = "''2024-01-02T00:00:05Z''"
  let ?cs = "[ex_coingecko_down, ex_exchangerate_ok]"
  have ok1: "client_succeeds ex_exchangerate_ok"
    by (simp add: client_succeeds_def ex_exchangerate_ok_def)
  have ok2: "\<not> client_succeeds ex_coingecko_down"
    by (simp add: client_succeeds_def ex_coingecko_down_def)
  have ok3: "client_succeeds ex_coingecko_empty"
    by (simp add: client_succeeds_def ex_coingecko_empty_def)
  have ok4: "\<not> client_succeeds ex_exchangerate_limited"
    by (simp add: client_succeeds_def ex_exchangerate_limited_def)
  have r1: "client_rates ex_exchangerate_ok = [(''EUR_USD'', 3), (''RUB_USD'', 1 / 100)]"
    by (simp add: client_rates_def ex_exchangerate_ok_def)
  have r2: "client_rates ex_coingecko_down = []"
    by (simp add: client_rates_def ex_coingecko_down_def)
  have r3: "client_rates ex_coingecko_empty = []"
    by (simp add: client_rates_def ex_coingecko_empty_def)
  have n: "cl_name ex_exchangerate_ok = ''ExchangeRateApiClient''"
    "cl_name ex_coingecko_down = ''CoinGeckoClient''"
    by (simp_all add: ex_exchangerate_ok_def ex_coingecko_down_def)
  have e2: "client_error ex_coingecko_down = ''CoinGecko: server error 503''"
    by (simp add: client_error_def ex_coingecko_down_def)
  have upd: "client_updated_at ?now ex_exchangerate_ok = ''2024-01-02T00:00:00Z''"
    by (simp add: client_updated_at_def ex_exchangerate_ok_def ex_exchangerate_meta_def)
  have fp: "fetched_point ?now ex_exchangerate_ok r
      = \<lparr>rp_rate = r, rp_updated_at = ''2024-01-02T00:00:00Z'', rp_source = ''ExchangeRate-API''\<rparr>" for r
    by (simp add: fetched_point_def client_updated_at_def client_source_def ex_exchangerate_ok_def
        ex_exchangerate_meta_def)
  have stored: "map_of (pairs (rates_file ex_storage)) ''EUR_USD'' = Some ex_point_jan1"
    "map_of (pairs (rates_file ex_storage)) ''GBP_USD'' = Some ex_point_jan1"
    "map_of (pairs (rates_file ex_storage)) ''RUB_USD'' = None"
    by (simp_all add: ex_storage_def ex_snapshot_jan1_def)
  have old: "rp_updated_at ex_point_jan1 = ''2024-01-01T00:00:00Z''"
    by (simp add: ex_point_jan1_def)
  have hist: "history_file ex_storage = [ex_entry]" "he_id ex_entry = ''BTC_USD_2024-01-01T00:00:00Z''"
    by (simp_all add: ex_storage_def ex_entry_def)
  have entries: "concat (map (client_entries Map.empty ?now) ?cs)
      = [\<lparr>he_id = ''EUR_USD_2024-01-02T00:00:00Z'', he_from_currency = ''EUR'',
                he_to_currency = ''USD'', he_rate = 3, he_timestamp = ''2024-01-02T00:00:00Z'',
                he_source = ''ExchangeRate-API'',
                he_meta = \<lparr>hm_raw_id = None, hm_request_ms = Some 80,
                           hm_status_code = Some 200, hm_etag = None\<rparr>\<rparr>,
         \<lparr>he_id = ''RUB_USD_2024-01-02T00:00:00Z'', he_from_currency = ''RUB'',
                he_to_currency = ''USD'', he_rate = 1 / 100, he_timestamp = ''2024-01-02T00:00:00Z'',
                he_source = ''ExchangeRate-API'',
                he_meta = \<lparr>hm_raw_id = None, hm_request_ms = Some 80,
                           hm_status_code = Some 200, hm_etag = None\<rparr>\<rparr>]"
    by (simp add: client_entries_def client_rates_def client_updated_at_def client_source_def
        ex_exchangerate_ok_def ex_exchangerate_meta_def ex_coingecko_down_def)
  have h: "\<exists>c \<in> set ?cs. client_succeeds c \<and> client_rates c \<noteq> []"
    using ok1 r1 by simp
  have h0: "\<forall>c \<in> set [ex_coingecko_empty, ex_exchangerate_limited].
      client_succeeds c \<longrightarrow> client_rates c = []"
    using ok4 r3 by simp
  note part = run_update_partial_failure [of ?cs fromisoformat_basic Map.empty ?now ex_storage]
  note none = run_update_partial_failure [of "[ex_coingecko_empty, ex_exchangerate_limited]"
      fromisoformat_basic Map.empty ?now ex_storage]
  from none h0 have fatal: "run_update fromisoformat_basic Map.empty ?now
        [ex_coingecko_empty, ex_exchangerate_limited] ex_storage
       = (Inl (RuntimeError ''No rates fetched from any source''), ex_storage)"
    by blast
  from part [THEN conjunct2, rule_format, OF h]
  obtain rep st' where run: "run_update fromisoformat_basic Map.empty ?now ?cs ex_storage = (Inr rep, st')"
    and ok: "sr_ok rep = (\<forall>c \<in> set ?cs. client_succeeds c)"
    and total: "sr_total rep
        = sum_list (map (\<lambda>c. length (client_rates c)) (filter client_succeeds ?cs))"
    and stamp: "sr_last_refresh rep = ?now"
    and errors: "sr_errors rep
        = map (\<lambda>c. ''Failed to fetch from '' @ cl_name c @ '': '' @ client_error c)
              (filter (\<lambda>c. \<not> client_succeeds c) ?cs)"
    and sources_last: "\<forall>xs c ys. ?cs = xs @ c # ys \<and> cl_name c \<notin> cl_name ` set ys \<longrightarrow>
               map_of (sr_sources rep) (cl_name c) = Some (source_entry c)"
    and sources: "distinct (map cl_name ?cs) \<longrightarrow>
          (\<forall>c \<in> set ?cs. map_of (sr_sources rep) (cl_name c) = Some (source_entry c))"
    and refreshed: "last_refresh (rates_file st') = Some ?now"
    and history: "history_file st'
              = history_file ex_storage
                  @ filter (\<lambda>e. he_id e \<notin> set (map he_id (history_file ex_storage)))
                      (concat (map (client_entries Map.empty ?now) ?cs))"
    and frame: "\<forall>k. (\<forall>c \<in> set ?cs. k \<notin> fst ` set (client_rates c)) \<longrightarrow>
               map_of (pairs (rates_file st')) k = map_of (pairs (rates_file ex_storage)) k"
    and keys: "\<forall>c \<in> set ?cs. client_succeeds c \<longrightarrow>
          fst ` set (client_rates c) \<subseteq> fst ` set (pairs (rates_file st'))"
    and merged: "\<forall>xs c ys k r.
               ?cs = xs @ c # ys \<and> client_succeeds c \<and> distinct (map fst (client_rates c))
               \<and> (k, r) \<in> set (client_rates c)
               \<and> (\<forall>c' \<in> set ys. k \<notin> fst ` set (client_rates c'))
               \<longrightarrow> map_of (pairs (rates_file st')) k
                     = (case map_of (pairs (rates_file ex_storage)) k of
                          None \<Rightarrow> Some (fetched_point ?now c r)
                        | Some old \<Rightarrow>
                            (case (parse_dt fromisoformat_basic (client_updated_at ?now c),
                                   parse_dt fromisoformat_basic (rp_updated_at old)) of
                               (Some (Aware a), Some (Aware b)) \<Rightarrow>
                                 if a > b then Some (fetched_point ?now c r) else Some old
                             | (Some (Naive a), Some (Naive b)) \<Rightarrow>
                                 if a > b then Some (fetched_point ?now c r) else Some old
                             | _ \<Rightarrow> Some (fetched_point ?now c r)))"
    by (elim exE conjE) (rule that)
  have a: "sr_ok rep = False" using ok ok2 by simp
  have b: "sr_total rep = 2" using total ok1 ok2 r1 by simp
  have c: "sr_errors rep = [''Failed to fetch from CoinGeckoClient: CoinGecko: server error 503'']"
    using errors ok1 ok2 n e2 by simp
  have d: "map_of (sr_sources rep) ''CoinGeckoClient'' = Some (SourceFailed ''CoinGecko: server error 503'')"
    and e: "map_of (sr_sources rep) ''ExchangeRateApiClient'' = Some (SourceOk 2)"
    using sources n ok1 ok2 r1 e2 by (simp_all add: source_entry_def)
  have f: "history_file st' =
       [ex_entry,
               \<lparr>he_id = ''EUR_USD_2024-01-02T00:00:00Z'', he_from_currency = ''EUR'',
                he_to_currency = ''USD'', he_rate = 3, he_timestamp = ''2024-01-02T00:00:00Z'',
                he_source = ''ExchangeRate-API'',
                he_meta = \<lparr>hm_raw_id = None, hm_request_ms = Some 80,
                           hm_status_code = Some 200, hm_etag = None\<rparr>\<rparr>,
               \<lparr>he_id = ''RUB_USD_2024-01-02T00:00:00Z'', he_from_currency = ''RUB'',
                he_to_currency = ''USD'', he_rate = 1 / 100, he_timestamp = ''2024-01-02T00:00:00Z'',
                he_source = ''ExchangeRate-API'',
                he_meta = \<lparr>hm_raw_id = None, hm_request_ms = Some 80,
                           hm_status_code = Some 200, hm_etag = None\<rparr>\<rparr>]"
    unfolding history entries by (simp add: hist)
  have g: "map_of (pairs (rates_file st')) ''EUR_USD''
            = Some \<lparr>rp_rate = 3, rp_updated_at = ''2024-01-02T00:00:00Z'', rp_source = ''ExchangeRate-API''\<rparr>"
    using merged [rule_format, of "[ex_coingecko_down]" ex_exchangerate_ok "[]" "''EUR_USD''" 3]
      ok1 r1 stored(1)
    by (simp add: upd old fp parse_jan1 parse_jan2)
  have i: "map_of (pairs (rates_file st')) ''RUB_USD''
            = Some \<lparr>rp_rate = 1 / 100, rp_updated_at = ''2024-01-02T00:00:00Z'', rp_source = ''ExchangeRate-API''\<rparr>"
    using merged [rule_format, of "[ex_coingecko_down]" ex_exchangerate_ok "[]" "''RUB_USD''" "1 / 100"]
      ok1 r1 stored(3)
    by (simp add: fp)
  have nk: "\<forall>c \<in> set ?cs. ''GBP_USD'' \<notin> fst ` set (client_rates c)"
    using r1 r2 by simp
  have j: "map_of (pairs (rates_file st')) ''GBP_USD'' = Some ex_point_jan1"
    using frame [THEN spec, of "''GBP_USD''", THEN mp, OF nk] stored(2) by simp
  have inner: "\<exists>rep st'. run_update fromisoformat_basic Map.empty ?now ?cs ex_storage = (Inr rep, st')
        \<and> sr_ok rep = False
        \<and> sr_total rep = 2
        \<and> sr_last_refresh rep = ?now
        \<and> sr_errors rep = [''Failed to fetch from CoinGeckoClient: CoinGecko: server error 503'']
        \<and> map_of (sr_sources rep) ''CoinGeckoClient'' = Some (SourceFailed ''CoinGecko: server error 503'')
        \<and> map_of (sr_sources rep) ''ExchangeRateApiClient'' = Some (SourceOk 2)
        \<and> last_refresh (rates_file st') = Some ?now
        \<and> history_file st'
            = [ex_entry,
               \<lparr>he_id = ''EUR_USD_2024-01-02T00:00:00Z'', he_from_currency = ''EUR'',
                he_to_currency = ''USD'', he_rate = 3, he_timestamp = ''2024-01-02T00:00:00Z'',
                he_source = ''ExchangeRate-API'',
                he_meta = \<lparr>hm_raw_id = None, hm_request_ms = Some 80,
                           hm_status_code = Some 200, hm_etag = None\<rparr>\<rparr>,
               \<lparr>he_id = ''RUB_USD_2024-01-02T00:00:00Z'', he_from_currency = ''RUB'',
                he_to_currency = ''USD'', he_rate = 1 / 100, he_timestamp = ''2024-01-02T00:00:00Z'',
                he_source = ''ExchangeRate-API'',
                he_meta = \<lparr>hm_raw_id = None, hm_request_ms = Some 80,
                           hm_status_code = Some 200, hm_etag = None\<rparr>\<rparr>]
        \<and> map_of (pairs (rates_file ex_storage)) ''EUR_USD'' = Some ex_point_jan1
        \<and> map_of (pairs (rates_file st')) ''EUR_USD''
            = Some \<lparr>rp_rate = 3, rp_updated_at = ''2024-01-02T00:00:00Z'', rp_source = ''ExchangeRate-API''\<rparr>
        \<and> map_of (pairs (rates_file st')) ''RUB_USD''
            = Some \<lparr>rp_rate = 1 / 100, rp_updated_at = ''2024-01-02T00:00:00Z'', rp_source = ''ExchangeRate-API''\<rparr>
        \<and> map_of (pairs (rates_file st')) ''GBP_USD'' = Some ex_point_jan1"
    using run a b stamp c d e refreshed f stored(1) g i j
    by (intro exI [of _ rep] exI [of _ st'] conjI)
  have ne: "client_rates ex_exchangerate_ok \<noteq> []" using r1 by simp
  from ok1 ne ok2 inner ok3 r3 ok4 fatal show ?thesis
    by (intro conjI)
qed

theorem run_update_partial_failure_counterexample:
  "client_succeeds ex_coingecko_empty \<and> \<not> client_succeeds ex_exchangerate_limited
   \<and> run_update fromisoformat_basic Map.empty ''2024-01-02T00:00:05Z''
        [ex_coingecko_empty, ex_exchangerate_limited] ex_storage
       = (Inl (RuntimeError ''No rates fetched from any source''), ex_storage)
   \<and> \<not> client_succeeds ex_coingecko_down \<and> client_succeeds ex_second_coingecko
   \<and> map_sum exn_text sr_sources
        (fst (run_update fromisoformat_basic Map.empty ''2024-01-02T00:00:05Z''
           [ex_coingecko_down, ex_second_coingecko] ex_storage))
       = Inr [(''CoinGeckoClient'', SourceOk 1)]"
  by (simp add: client_succeeds_def ex_coingecko_empty_def ex_exchangerate_limited_def
      ex_coingecko_down_def ex_second_coingecko_def run_update_def client_step_def
      record_failure_def initial_acc_def Let_def)

section \<open>Properties of the rate source client\<close>

lemma validate_EUR: "validate_currency_code ''EUR'' = Inr ()"
  by code_simp

lemma validate_GBP: "validate_currency_code ''GBP'' = Inr ()"
  by code_simp

lemma validate_USD: "validate_currency_code ''USD'' = Inr ()"
  by code_simp

lemma pair_key_GBP_USD: "pair_key ''GBP'' ''USD'' = ''GBP_USD''"
  by code_simp

lemma fiat_loop_skip_zero:
  "rates code0 = Some 0 \<Longrightarrow>
     fiat_loop cfg (rates(code0 := None)) codes out = fiat_loop cfg rates codes out"
  by (induction cfg rates codes out rule: fiat_loop.induct)
     (auto split: sum.splits option.splits)

lemma set_update_subset: "set (AList.update k v al) \<subseteq> insert (k, v) (set al)"
  by (induction al) auto

lemma fiat_loop_entries:
  "fiat_loop cfg rates codes out = Inr out' \<Longrightarrow> (k, r) \<in> set out' \<Longrightarrow>
     (k, r) \<in> set out \<or>
     (\<exists>code \<in> set codes. \<exists>v. code \<noteq> BASE_CURRENCY cfg \<and> rates code = Some v \<and> v \<noteq> 0
        \<and> k = pair_key code (BASE_CURRENCY cfg) \<and> r = 1 / v)"
proof (induction cfg rates codes out rule: fiat_loop.induct)
  case (1 cfg rates out)
  then show ?case by simp
next
  case (2 cfg rates code codes out)
  from "2.prems"(1) have v: "validate_currency_code code = Inr ()"
    by (simp split: sum.splits)
  show ?case
  proof (cases "code = BASE_CURRENCY cfg \<or> rates code = None \<or> rates code = Some 0")
    case True
    with "2.prems" v have run: "fiat_loop cfg rates codes out = Inr out'"
      by (auto split: option.splits if_splits)
    from True consider "code = BASE_CURRENCY cfg"
      | "code \<noteq> BASE_CURRENCY cfg" "rates code = None"
      | "code \<noteq> BASE_CURRENCY cfg" "rates code = Some 0"
      by auto
    then have "(k, r) \<in> set out \<or>
       (\<exists>code \<in> set codes. \<exists>v. code \<noteq> BASE_CURRENCY cfg \<and> rates code = Some v \<and> v \<noteq> 0
          \<and> k = pair_key code (BASE_CURRENCY cfg) \<and> r = 1 / v)"
    proof cases
      case 1
      from "2.IH"(1) [OF v 1 run "2.prems"(2)] show ?thesis .
    next
      case 2
      from "2.IH"(2) [OF v 2 run "2.prems"(2)] show ?thesis .
    next
      case 3
      from "2.IH"(3) [OF v 3(1) 3(2) _ run "2.prems"(2)] show ?thesis by simp
    qed
    then show ?thesis by auto
  next
    case False
    then obtain val where val: "rates code = Some val" "val \<noteq> 0" "code \<noteq> BASE_CURRENCY cfg"
      by auto
    with "2.prems" v have run: "fiat_loop cfg rates codes
        (AList.update (pair_key code (BASE_CURRENCY cfg)) (1 / val) out) = Inr out'"
      by simp
    from "2.IH"(4) [OF v val(3) val(1) val(2) run "2.prems"(2)]
    show ?thesis
    proof
      assume "(k, r) \<in> set (AList.update (pair_key code (BASE_CURRENCY cfg)) (1 / val) out)"
      with set_update_subset have "(k, r) = (pair_key code (BASE_CURRENCY cfg), 1 / val) \<or> (k, r) \<in> set out"
        by fastforce
      with val show ?thesis by auto
    next
      assume "\<exists>code \<in> set codes. \<exists>v. code \<noteq> BASE_CURRENCY cfg \<and> rates code = Some v \<and> v \<noteq> 0
        \<and> k = pair_key code (BASE_CURRENCY cfg) \<and> r = 1 / v"
      then show ?thesis by auto
    qed
  qed
qed

lemma fetch_rates_Inr:
  "fst (fetch_rates cfg (Inr resp) ms to_iso now_iso meta) = Inr out \<Longrightarrow>
     \<exists>data. resp_json resp = Some data
        \<and> fiat_loop cfg (ep_rates data) (FIAT_CURRENCIES cfg) [] = Inr out"
  by (auto simp add: fetch_rates_def split: if_splits option.splits sum.splits)

text \<open>
  C8. A requested currency whose reported value is exactly zero is
  skipped: the outcome of the fetch, and the metadata it records, are the same as for
  the payload without that currency, so no error is raised for it; and every rate a
  successful fetch returns is the inverse \<open>1 / v\<close> of a nonzero reported value \<open>v\<close> of a
  configured currency other than the base, so a zero value is never returned as a rate.
\<close>

theorem zero_value_is_skipped:
  "(ep_rates data code0 = Some 0 \<longrightarrow>
      fetch_rates cfg (Inr (resp\<lparr>resp_json := Some (data\<lparr>ep_rates := (ep_rates data)(code0 := None)\<rparr>)\<rparr>))
          ms to_iso now_iso meta
        = fetch_rates cfg (Inr (resp\<lparr>resp_json := Some data\<rparr>)) ms to_iso now_iso meta)
   \<and> (fst (fetch_rates cfg (Inr resp) ms to_iso now_iso meta) = Inr out \<and> (k, r) \<in> set out \<longrightarrow>
        r \<noteq> 0
        \<and> (\<exists>data' v. resp_json resp = Some data' \<and> (\<exists>code \<in> set (FIAT_CURRENCIES cfg).
              code \<noteq> BASE_CURRENCY cfg \<and> ep_rates data' code = Some v \<and> v \<noteq> 0
              \<and> k = pair_key code (BASE_CURRENCY cfg) \<and> r = 1 / v)))"
proof (intro conjI impI)
  assume "ep_rates data code0 = Some 0"
  then have "fiat_loop cfg ((ep_rates data)(code0 := None)) (FIAT_CURRENCIES cfg) []
      = fiat_loop cfg (ep_rates data) (FIAT_CURRENCIES cfg) []"
    by (rule fiat_loop_skip_zero)
  then show "fetch_rates cfg (Inr (resp\<lparr>resp_json := Some (data\<lparr>ep_rates := (ep_rates data)(code0 := None)\<rparr>)\<rparr>))
          ms to_iso now_iso meta
        = fetch_rates cfg (Inr (resp\<lparr>resp_json := Some data\<rparr>)) ms to_iso now_iso meta"
    by (simp add: fetch_rates_def split: option.splits sum.splits)
next
  assume h: "fst (fetch_rates cfg (Inr resp) ms to_iso now_iso meta) = Inr out \<and> (k, r) \<in> set out"
  then obtain data' where d: "resp_json resp = Some data'"
    and loop: "fiat_loop cfg (ep_rates data') (FIAT_CURRENCIES cfg) [] = Inr out"
    using fetch_rates_Inr by blast
  from fiat_loop_entries [OF loop, of k r] h
  obtain code v where c: "code \<in> set (FIAT_CURRENCIES cfg)" "code \<noteq> BASE_CURRENCY cfg"
      "ep_rates data' code = Some v" "v \<noteq> 0" "k = pair_key code (BASE_CURRENCY cfg)" "r = 1 / v"
    by auto
  then show "r \<noteq> 0" by simp
  from d c show "\<exists>data' v. resp_json resp = Some data' \<and> (\<exists>code \<in> set (FIAT_CURRENCIES cfg).
              code \<noteq> BASE_CURRENCY cfg \<and> ep_rates data' code = Some v \<and> v \<noteq> 0
              \<and> k = pair_key code (BASE_CURRENCY cfg) \<and> r = 1 / v)"
    by blast
qed

lemma ex_fetch_zero:
  "fst (fetch_rates ex_config (Inr ex_response_zero) 120 ex_to_iso ''2024-01-02T00:00:05Z'' ex_no_meta)
     = Inr [(''GBP_USD'', 1 / 4)]"
  by (simp add: fetch_rates_def ex_config_def ex_response_zero_def ex_payload_zero_def
      validate_EUR validate_GBP validate_USD pair_key_GBP_USD)

theorem zero_value_counterexample:
  "ep_rates ex_payload_zero ''EUR'' = Some 0
   \<and> ''EUR'' \<in> set (FIAT_CURRENCIES ex_config)
   \<and> fst (fetch_rates ex_config (Inr ex_response_zero) 120 ex_to_iso ''2024-01-02T00:00:05Z'' ex_no_meta)
       = Inr [(''GBP_USD'', 1 / 4)]"
  using ex_fetch_zero by (simp add: ex_payload_zero_def ex_config_def)

theorem zero_value_is_skipped_witness:
  "ep_rates ex_payload_zero ''EUR'' = Some 0
   \<and> fetch_rates ex_config
        (Inr (ex_response_zero\<lparr>resp_json :=
                Some (ex_payload_zero\<lparr>ep_rates := (ep_rates ex_payload_zero)(''EUR'' := None)\<rparr>)\<rparr>))
        120 ex_to_iso ''2024-01-02T00:00:05Z'' ex_no_meta
       = fetch_rates ex_config (Inr ex_response_zero) 120 ex_to_iso ''2024-01-02T00:00:05Z'' ex_no_meta
   \<and> fst (fetch_rates ex_config (Inr ex_response_zero) 120 ex_to_iso ''2024-01-02T00:00:05Z'' ex_no_meta)
       = Inr [(''GBP_USD'', 1 / 4)]
   \<and> (1 / 4 :: real) \<noteq> 0
   \<and> (\<exists>data' v. resp_json ex_response_zero = Some data' \<and> (\<exists>code \<in> set (FIAT_CURRENCIES ex_config).
              code \<noteq> BASE_CURRENCY ex_config \<and> ep_rates data' code = Some v \<and> v \<noteq> 0
              \<and> ''GBP_USD'' = pair_key code (BASE_CURRENCY ex_config) \<and> (1 / 4 :: real) = 1 / v))"
proof -
  have z: "ep_rates ex_payload_zero ''EUR'' = Some 0"
    by (simp add: ex_payload_zero_def)
  have same: "ex_response_zero\<lparr>resp_json := Some ex_payload_zero\<rparr> = ex_response_zero"
    by (simp add: ex_response_zero_def)
  note inst = zero_value_is_skipped [of ex_payload_zero "''EUR''" ex_config ex_response_zero 120
      ex_to_iso "''2024-01-02T00:00:05Z''" ex_no_meta "[(''GBP_USD'', 1 / 4)]" "''GBP_USD''" "1 / 4"]
  from inst z same have a: "fetch_rates ex_config
        (Inr (ex_response_zero\<lparr>resp_json :=
                Some (ex_payload_zero\<lparr>ep_rates := (ep_rates ex_payload_zero)(''EUR'' := None)\<rparr>)\<rparr>))
        120 ex_to_iso ''2024-01-02T00:00:05Z'' ex_no_meta
       = fetch_rates ex_config (Inr ex_response_zero) 120 ex_to_iso ''2024-01-02T00:00:05Z'' ex_no_meta"
    by simp
  from inst ex_fetch_zero have b: "(1 / 4 :: real) \<noteq> 0
   \<and> (\<exists>data' v. resp_json ex_response_zero = Some data' \<and> (\<exists>code \<in> set (FIAT_CURRENCIES ex_config).
              code \<noteq> BASE_CURRENCY ex_config \<and> ep_rates data' code = Some v \<and> v \<noteq> 0
              \<and> ''GBP_USD'' = pair_key code (BASE_CURRENCY ex_config) \<and> (1 / 4 :: real) = 1 / v))"
    by simp
  from z a ex_fetch_zero b show ?thesis by (intro conjI) simp_all
qed

section \<open>Properties of the rate resolver\<close>

lemma supported_USD: "supported_code ''USD''"
  by code_simp

lemma supported_EUR: "supported_code ''EUR''"
  by code_simp

lemma supported_GBP: "supported_code ''GBP''"
  by code_simp

lemma supported_RUB: "supported_code ''RUB''"
  by code_simp

lemma pair_keys_ex:
  "pair_key ''EUR'' ''EUR'' = ''EUR_EUR''" "pair_key ''EUR'' ''USD'' = ''EUR_USD''"
  "pair_key ''USD'' ''EUR'' = ''USD_EUR''" "pair_key ''USD'' ''USD'' = ''USD_USD''"
  "pair_key ''EUR'' ''GBP'' = ''EUR_GBP''" "pair_key ''GBP'' ''EUR'' = ''GBP_EUR''"
  "pair_key ''GBP'' ''USD'' = ''GBP_USD''" "pair_key ''USD'' ''GBP'' = ''USD_GBP''"
  "pair_key ''EUR'' ''RUB'' = ''EUR_RUB''" "pair_key ''RUB'' ''EUR'' = ''RUB_EUR''"
  "pair_key ''RUB'' ''USD'' = ''RUB_USD''" "pair_key ''USD'' ''RUB'' = ''USD_RUB''"
  by code_simp+

lemma get_pair_rate_supported:
  assumes "supported_code from_code" and "supported_code to_code"
  shows "get_pair_rate snap from_code to_code =
     (case map_of (pairs snap) (pair_key from_code to_code) of
        Some item \<Rightarrow> Inr (rp_rate item, rp_updated_at item)
      | None \<Rightarrow>
     (case map_of (pairs snap) (pair_key to_code from_code) of
        Some item \<Rightarrow>
          if rp_rate item = 0 then Inl (ApiRequestError ''zero rate in cache'')
          else Inr (1 / rp_rate item, rp_updated_at item)
      | None \<Rightarrow>
          if from_code \<noteq> ''USD'' \<and> to_code \<noteq> ''USD''
          then (case get_pair_rate snap from_code ''USD'' of
                  Inl e \<Rightarrow> Inl e
                | Inr r1 \<Rightarrow>
                    (case get_pair_rate snap to_code ''USD'' of
                       Inl e \<Rightarrow> Inl e
                     | Inr r2 \<Rightarrow>
                         if fst r2 = 0 then Inl (ApiRequestError ''zero rate of the USD bridge'')
                         else Inr (fst r1 / fst r2, snd r1)))
          else Inl (ApiRequestError ''rate not found in cache'')))"
  using assms
  by (subst get_pair_rate.simps) (simp add: supported_code_def)

lemma get_pair_rate_direct:
  "supported_code from_code \<Longrightarrow> supported_code to_code \<Longrightarrow>
   map_of (pairs snap) (pair_key from_code to_code) = Some item \<Longrightarrow>
     get_pair_rate snap from_code to_code = Inr (rp_rate item, rp_updated_at item)"
  by (simp add: get_pair_rate_supported)

lemma get_rate_resolved:
  "get_pair_rate (cs_cached cs) from_code to_code = Inr r \<Longrightarrow>
     get_rate fiso id_map now_iso cg er now_utc ttl cs from_code to_code
       = (Inr (rate_answer fiso now_utc ttl from_code to_code r), cs)"
  by (simp add: get_rate_def)

lemma get_rate_refresh:
  "get_pair_rate (cs_cached cs) from_code to_code = Inl (ApiRequestError m) \<Longrightarrow>
     get_rate fiso id_map now_iso cg er now_utc ttl cs from_code to_code
       = (case try_refresh_rates fiso id_map now_iso cg er cs of
            (Inl e, cs') \<Rightarrow> (Inl e, cs')
          | (Inr u, cs') \<Rightarrow>
              (case get_pair_rate (cs_cached cs') from_code to_code of
                 Inl e \<Rightarrow> (Inl e, cs')
               | Inr r \<Rightarrow> (Inr (rate_answer fiso now_utc ttl from_code to_code r), cs')))"
  by (simp add: get_rate_def)

text \<open>
  C6. Inverse lookup: for supported codes \<open>a\<close> and \<open>b\<close> with the key of \<open>(b, a)\<close> absent
  from the snapshot and the key of \<open>(a, b)\<close> stored with rate \<open>r\<close>: when \<open>r\<close> is not zero,
  \<open>get_rate(b, a)\<close> returns \<open>1 / r\<close> with the stored \<open>updated_at\<close> (and no refresh happens);
  when \<open>r\<close> is zero, the resolution raises \<open>ApiRequestError\<close> in place of dividing, and
  \<open>get_rate\<close> goes on to its one refresh and second resolution.
\<close>

theorem inverse_lookup:
  assumes "supported_code a" and "supported_code b"
    and "map_of (pairs (cs_cached cs)) (pair_key b a) = None"
    and "map_of (pairs (cs_cached cs)) (pair_key a b) = Some item"
  shows "(rp_rate item \<noteq> 0 \<longrightarrow>
            get_rate fiso id_map now_iso cg er now_utc ttl cs b a
              = (Inr \<lparr>rr_from = b, rr_to = a, rr_rate = 1 / rp_rate item,
                       rr_updated_at = rp_updated_at item,
                       rr_stale = is_stale fiso now_utc ttl (rp_updated_at item)\<rparr>, cs))
       \<and> (rp_rate item = 0 \<longrightarrow>
            get_pair_rate (cs_cached cs) b a = Inl (ApiRequestError ''zero rate in cache'')
            \<and> get_rate fiso id_map now_iso cg er now_utc ttl cs b a
              = (case try_refresh_rates fiso id_map now_iso cg er cs of
                   (Inl e, cs') \<Rightarrow> (Inl e, cs')
                 | (Inr u, cs') \<Rightarrow>
                     (case get_pair_rate (cs_cached cs') b a of
                        Inl e \<Rightarrow> (Inl e, cs')
                      | Inr r \<Rightarrow> (Inr (rate_answer fiso now_utc ttl b a r), cs'))))"
proof (intro conjI impI)
  assume nz: "rp_rate item \<noteq> 0"
  with assms have "get_pair_rate (cs_cached cs) b a = Inr (1 / rp_rate item, rp_updated_at item)"
    by (simp add: get_pair_rate_supported)
  then show "get_rate fiso id_map now_iso cg er now_utc ttl cs b a
              = (Inr \<lparr>rr_from = b, rr_to = a, rr_rate = 1 / rp_rate item,
                       rr_updated_at = rp_updated_at item,
                       rr_stale = is_stale fiso now_utc ttl (rp_updated_at item)\<rparr>, cs)"
    by (simp add: get_rate_resolved rate_answer_def)
next
  assume z: "rp_rate item = 0"
  with assms show f: "get_pair_rate (cs_cached cs) b a = Inl (ApiRequestError ''zero rate in cache'')"
    by (simp add: get_pair_rate_supported)
  then show "get_rate fiso id_map now_iso cg er now_utc ttl cs b a
              = (case try_refresh_rates fiso id_map now_iso cg er cs of
                   (Inl e, cs') \<Rightarrow> (Inl e, cs')
                 | (Inr u, cs') \<Rightarrow>
                     (case get_pair_rate (cs_cached cs') b a of
                        Inl e \<Rightarrow> (Inl e, cs')
                      | Inr r \<Rightarrow> (Inr (rate_answer fiso now_utc ttl b a r), cs')))"
    by (rule get_rate_refresh)
qed

text \<open>
  C5. Bridge lookup: for supported codes, neither of them \<open>USD\<close>, with neither the
  direct nor the inverse key in the snapshot, the resolution is the two resolutions to
  \<open>USD\<close>: it raises what either of them raises, raises \<open>ApiRequestError\<close> when the rate
  to \<open>USD\<close> of the target is zero, and is otherwise the quotient of the two rates with
  the timestamp of the first. With both quotes stored directly, \<open>get_rate\<close> returns their
  quotient (2 and 4 give 1/2) and the \<open>updated_at\<close> of the first, with no refresh.
\<close>

theorem bridge_lookup:
  assumes "supported_code from_code" and "supported_code to_code"
    and "from_code \<noteq> ''USD''" and "to_code \<noteq> ''USD''"
    and "map_of (pairs (cs_cached cs)) (pair_key from_code to_code) = None"
    and "map_of (pairs (cs_cached cs)) (pair_key to_code from_code) = None"
  shows "get_pair_rate (cs_cached cs) from_code to_code
           = (case get_pair_rate (cs_cached cs) from_code ''USD'' of
                Inl e \<Rightarrow> Inl e
              | Inr r1 \<Rightarrow>
                  (case get_pair_rate (cs_cached cs) to_code ''USD'' of
                     Inl e \<Rightarrow> Inl e
                   | Inr r2 \<Rightarrow>
                       if fst r2 = 0 then Inl (ApiRequestError ''zero rate of the USD bridge'')
                       else Inr (fst r1 / fst r2, snd r1)))
       \<and> (get_pair_rate (cs_cached cs) from_code ''USD'' = Inr (r_from, upd)
            \<and> get_pair_rate (cs_cached cs) to_code ''USD'' = Inr (r_to, upd') \<longrightarrow>
              (r_to \<noteq> 0 \<longrightarrow>
                 get_rate fiso id_map now_iso cg er now_utc ttl cs from_code to_code
                   = (Inr \<lparr>rr_from = from_code, rr_to = to_code, rr_rate = r_from / r_to,
                            rr_updated_at = upd, rr_stale = is_stale fiso now_utc ttl upd\<rparr>, cs))
            \<and> (r_to = 0 \<longrightarrow>
                 get_pair_rate (cs_cached cs) from_code to_code
                   = Inl (ApiRequestError ''zero rate of the USD bridge'')))
       \<and> (map_of (pairs (cs_cached cs)) (pair_key from_code ''USD'') = Some i1
            \<and> map_of (pairs (cs_cached cs)) (pair_key to_code ''USD'') = Some i2
            \<and> rp_rate i1 = 2 \<and> rp_rate i2 = 4 \<longrightarrow>
              get_rate fiso id_map now_iso cg er now_utc ttl cs from_code to_code
                = (Inr \<lparr>rr_from = from_code, rr_to = to_code, rr_rate = 1 / 2,
                         rr_updated_at = rp_updated_at i1,
                         rr_stale = is_stale fiso now_utc ttl (rp_updated_at i1)\<rparr>, cs))"
proof -
  have bridge: "get_pair_rate (cs_cached cs) from_code to_code
           = (case get_pair_rate (cs_cached cs) from_code ''USD'' of
                Inl e \<Rightarrow> Inl e
              | Inr r1 \<Rightarrow>
                  (case get_pair_rate (cs_cached cs) to_code ''USD'' of
                     Inl e \<Rightarrow> Inl e
                   | Inr r2 \<Rightarrow>
                       if fst r2 = 0 then Inl (ApiRequestError ''zero rate of the USD bridge'')
                       else Inr (fst r1 / fst r2, snd r1)))"
    using assms by (simp add: get_pair_rate_supported [of from_code to_code])
  have resolved: "get_rate fiso id_map now_iso cg er now_utc ttl cs from_code to_code
                   = (Inr \<lparr>rr_from = from_code, rr_to = to_code, rr_rate = rf / rt,
                            rr_updated_at = u, rr_stale = is_stale fiso now_utc ttl u\<rparr>, cs)"
    if "get_pair_rate (cs_cached cs) from_code ''USD'' = Inr (rf, u)"
      and "get_pair_rate (cs_cached cs) to_code ''USD'' = Inr (rt, u')" and "rt \<noteq> 0"
    for rf rt u u'
  proof -
    from that have "get_pair_rate (cs_cached cs) from_code to_code = Inr (rf / rt, u)"
      by (simp add: bridge)
    then show ?thesis by (simp add: get_rate_resolved rate_answer_def)
  qed
  have zero: "get_pair_rate (cs_cached cs) from_code to_code
                   = Inl (ApiRequestError ''zero rate of the USD bridge'')"
    if "get_pair_rate (cs_cached cs) from_code ''USD'' = Inr (rf, u)"
      and "get_pair_rate (cs_cached cs) to_code ''USD'' = Inr (0, u')"
    for rf u u'
    using that by (simp add: bridge)
  have direct: "get_rate fiso id_map now_iso cg er now_utc ttl cs from_code to_code
                = (Inr \<lparr>rr_from = from_code, rr_to = to_code, rr_rate = 1 / 2,
                         rr_updated_at = rp_updated_at i1,
                         rr_stale = is_stale fiso now_utc ttl (rp_updated_at i1)\<rparr>, cs)"
    if "map_of (pairs (cs_cached cs)) (pair_key from_code ''USD'') = Some i1"
      and "map_of (pairs (cs_cached cs)) (pair_key to_code ''USD'') = Some i2"
      and "rp_rate i1 = 2" and "rp_rate i2 = 4"
  proof -
    from that assms have "get_pair_rate (cs_cached cs) from_code ''USD'' = Inr (2, rp_updated_at i1)"
      and "get_pair_rate (cs_cached cs) to_code ''USD'' = Inr (4, rp_updated_at i2)"
      by (simp_all add: get_pair_rate_direct supported_USD)
    from resolved [OF this] show ?thesis by simp
  qed
  from bridge resolved zero direct show ?thesis by blast
qed

lemma stale_jan1:
  "is_stale fromisoformat_basic 1704067260000000 300 ''2024-01-01T00:00:00Z'' = False"
  by (simp add: is_stale_def parse_jan1)

theorem inverse_lookup_witness:
  "supported_code ''EUR'' \<and> supported_code ''USD'' \<and> supported_code ''RUB''
   \<and> map_of (pairs (cs_cached ex_core_state)) (pair_key ''USD'' ''EUR'') = None
   \<and> map_of (pairs (cs_cached ex_core_state)) (pair_key ''EUR'' ''USD'') = Some ex_point_jan1
   \<and> rp_rate ex_point_jan1 = 2
   \<and> get_rate fromisoformat_basic Map.empty ''2024-01-01T00:01:00Z'' ex_fetch_down ex_fetch_down
        1704067260000000 300 ex_core_state ''USD'' ''EUR''
       = (Inr \<lparr>rr_from = ''USD'', rr_to = ''EUR'', rr_rate = 1 / 2,
                rr_updated_at = ''2024-01-01T00:00:00Z'', rr_stale = False\<rparr>, ex_core_state)
   \<and> map_of (pairs (cs_cached ex_core_state_zero)) (pair_key ''USD'' ''RUB'') = None
   \<and> map_option rp_rate (map_of (pairs (cs_cached ex_core_state_zero)) (pair_key ''RUB'' ''USD'')) = Some 0
   \<and> get_pair_rate (cs_cached ex_core_state_zero) ''USD'' ''RUB''
       = Inl (ApiRequestError ''zero rate in cache'')"
proof -
  have a1: "map_of (pairs (cs_cached ex_core_state)) (pair_key ''USD'' ''EUR'') = None"
    and a2: "map_of (pairs (cs_cached ex_core_state)) (pair_key ''EUR'' ''USD'') = Some ex_point_jan1"
    by (simp_all add: ex_core_state_def ex_snapshot_jan1_def pair_keys_ex)
  have r: "rp_rate ex_point_jan1 = 2" "rp_updated_at ex_point_jan1 = ''2024-01-01T00:00:00Z''"
    by (simp_all add: ex_point_jan1_def)
  have g: "get_rate fromisoformat_basic Map.empty ''2024-01-01T00:01:00Z'' ex_fetch_down ex_fetch_down
        1704067260000000 300 ex_core_state ''USD'' ''EUR''
       = (Inr \<lparr>rr_from = ''USD'', rr_to = ''EUR'', rr_rate = 1 / 2,
                rr_updated_at = ''2024-01-01T00:00:00Z'', rr_stale = False\<rparr>, ex_core_state)"
    using inverse_lookup [OF supported_EUR supported_USD a1 a2, of fromisoformat_basic Map.empty
        "''2024-01-01T00:01:00Z''" ex_fetch_down ex_fetch_down 1704067260000000 300]
    by (simp add: r stale_jan1)
  define zero_point where "zero_point =
    \<lparr>rp_rate = 0, rp_updated_at = ''2024-01-02T00:00:00Z'', rp_source = ''ExchangeRate-API''\<rparr>"
  have b1: "map_of (pairs (cs_cached ex_core_state_zero)) (pair_key ''USD'' ''RUB'') = None"
    and b2: "map_of (pairs (cs_cached ex_core_state_zero)) (pair_key ''RUB'' ''USD'') = Some zero_point"
    by (simp_all add: ex_core_state_zero_def ex_snapshot_zero_def pair_keys_ex zero_point_def)
  have z: "get_pair_rate (cs_cached ex_core_state_zero) ''USD'' ''RUB''
       = Inl (ApiRequestError ''zero rate in cache'')"
    using inverse_lookup [OF supported_RUB supported_USD b1 b2, of fromisoformat_basic Map.empty
        "''2024-01-01T00:01:00Z''" ex_fetch_down ex_fetch_down 1704067260000000 300]
    by (simp add: zero_point_def)
  have b3: "map_option rp_rate (map_of (pairs (cs_cached ex_core_state_zero)) (pair_key ''RUB'' ''USD'')) = Some 0"
    by (simp add: b2 zero_point_def)
  from supported_EUR supported_USD supported_RUB a1 a2 r(1) g b1 b3 z show ?thesis
    by (intro conjI)
qed

theorem bridge_lookup_witness:
  "supported_code ''EUR'' \<and> supported_code ''GBP'' \<and> supported_code ''RUB''
   \<and> map_of (pairs (cs_cached ex_core_state_zero)) (pair_key ''EUR'' ''GBP'') = None
   \<and> map_of (pairs (cs_cached ex_core_state_zero)) (pair_key ''GBP'' ''EUR'') = None
   \<and> map_option rp_rate (map_of (pairs (cs_cached ex_core_state_zero)) (pair_key ''EUR'' ''USD'')) = Some 2
   \<and> map_option rp_rate (map_of (pairs (cs_cached ex_core_state_zero)) (pair_key ''GBP'' ''USD'')) = Some 4
   \<and> get_rate fromisoformat_basic Map.empty ''2024-01-01T00:01:00Z'' ex_fetch_down ex_fetch_down
        1704067260000000 300 ex_core_state_zero ''EUR'' ''GBP''
       = (Inr \<lparr>rr_from = ''EUR'', rr_to = ''GBP'', rr_rate = 1 / 2,
                rr_updated_at = ''2024-01-01T00:00:00Z'', rr_stale = False\<rparr>, ex_core_state_zero)
   \<and> map_of (pairs (cs_cached ex_core_state_zero)) (pair_key ''EUR'' ''RUB'') = None
   \<and> map_of (pairs (cs_cached ex_core_state_zero)) (pair_key ''RUB'' ''EUR'') = None
   \<and> get_pair_rate (cs_cached ex_core_state_zero) ''RUB'' ''USD'' = Inr (0, ''2024-01-02T00:00:00Z'')
   \<and> get_pair_rate (cs_cached ex_core_state_zero) ''EUR'' ''RUB''
       = Inl (ApiRequestError ''zero rate of the USD bridge'')"
proof -
  define gbp_point where "gbp_point =
    \<lparr>rp_rate = 4, rp_updated_at = ''2024-01-02T00:00:00Z'', rp_source = ''ExchangeRate-API''\<rparr>"
  define zero_point where "zero_point =
    \<lparr>rp_rate = 0, rp_updated_at = ''2024-01-02T00:00:00Z'', rp_source = ''ExchangeRate-API''\<rparr>"
  have n: "map_of (pairs (cs_cached ex_core_state_zero)) (pair_key ''EUR'' ''GBP'') = None"
    "map_of (pairs (cs_cached ex_core_state_zero)) (pair_key ''GBP'' ''EUR'') = None"
    "map_of (pairs (cs_cached ex_core_state_zero)) (pair_key ''EUR'' ''RUB'') = None"
    "map_of (pairs (cs_cached ex_core_state_zero)) (pair_key ''RUB'' ''EUR'') = None"
    by (simp_all add: ex_core_state_zero_def ex_snapshot_zero_def pair_keys_ex)
  have s: "map_of (pairs (cs_cached ex_core_state_zero)) (pair_key ''EUR'' ''USD'') = Some ex_point_jan1"
    "map_of (pairs (cs_cached ex_core_state_zero)) (pair_key ''GBP'' ''USD'') = Some gbp_point"
    "map_of (pairs (cs_cached ex_core_state_zero)) (pair_key ''RUB'' ''USD'') = Some zero_point"
    by (simp_all add: ex_core_state_zero_def ex_snapshot_zero_def pair_keys_ex gbp_point_def
        zero_point_def)
  have r: "rp_rate ex_point_jan1 = 2" "rp_updated_at ex_point_jan1 = ''2024-01-01T00:00:00Z''"
    "rp_rate gbp_point = 4" "rp_rate zero_point = 0"
    "rp_updated_at zero_point = ''2024-01-02T00:00:00Z''"
    by (simp_all add: ex_point_jan1_def gbp_point_def zero_point_def)
  have ne: "''EUR'' \<noteq> ''USD''" "''GBP'' \<noteq> ''USD''" "''RUB'' \<noteq> ''USD''"
    by simp_all
  have g: "get_rate fromisoformat_basic Map.empty ''2024-01-01T00:01:00Z'' ex_fetch_down ex_fetch_down
        1704067260000000 300 ex_core_state_zero ''EUR'' ''GBP''
       = (Inr \<lparr>rr_from = ''EUR'', rr_to = ''GBP'', rr_rate = 1 / 2,
                rr_updated_at = ''2024-01-01T00:00:00Z'', rr_stale = False\<rparr>, ex_core_state_zero)"
    using bridge_lookup [OF supported_EUR supported_GBP ne(1) ne(2) n(1) n(2),
        of _ _ _ _ fromisoformat_basic Map.empty "''2024-01-01T00:01:00Z''" ex_fetch_down
        ex_fetch_down 1704067260000000 300 ex_point_jan1 gbp_point]
    by (simp add: s r stale_jan1)
  have e: "get_pair_rate (cs_cached ex_core_state_zero) ''EUR'' ''USD'' = Inr (2, ''2024-01-01T00:00:00Z'')"
    and z: "get_pair_rate (cs_cached ex_core_state_zero) ''RUB'' ''USD'' = Inr (0, ''2024-01-02T00:00:00Z'')"
    using s r by (simp_all add: get_pair_rate_direct supported_EUR supported_RUB supported_USD)
  have f: "get_pair_rate (cs_cached ex_core_state_zero) ''EUR'' ''RUB''
       = Inl (ApiRequestError ''zero rate of the USD bridge'')"
    using bridge_lookup [OF supported_EUR supported_RUB ne(1) ne(3) n(3) n(4),
        of 2 "''2024-01-01T00:00:00Z''" 0 "''2024-01-02T00:00:00Z''"] e z
    by simp
  have m: "map_option rp_rate (map_of (pairs (cs_cached ex_core_state_zero)) (pair_key ''EUR'' ''USD'')) = Some 2"
    "map_option rp_rate (map_of (pairs (cs_cached ex_core_state_zero)) (pair_key ''GBP'' ''USD'')) = Some 4"
    by (simp_all add: s r)
  from supported_EUR supported_GBP supported_RUB n m g z f show ?thesis
    by (intro conjI)
qed

lemma get_pair_rate_to_USD_error:
  assumes "supported_code x" and "get_pair_rate snap x ''USD'' = Inl e"
  shows "\<exists>m. e = ApiRequestError m"
  using assms(2)
  by (auto simp add: get_pair_rate_supported [OF assms(1) supported_USD]
      split: option.splits if_splits)

text \<open>
  C10. Rate of a supported code \<open>x\<close> to itself, with the key of \<open>(x, x)\<close> absent from
  the snapshot. \<open>convert\<close> returns the amount unchanged. For \<open>x = USD\<close> the direct and
  the inverse step miss and the bridge is not taken: the resolution raises
  \<open>ApiRequestError\<close>, \<open>get_rate\<close> makes its one refresh, fails with the error of a failed
  refresh, and otherwise resolves once more on the refreshed snapshot, failing again
  when the key is still absent. For any other code the bridge step is taken: the
  resolution is the resolution of \<open>x\<close> to \<open>USD\<close> divided by itself. When that quote
  resolves to a nonzero rate, \<open>get_rate(x, x)\<close> returns rate 1 with the quote's
  \<open>updated_at\<close> and makes no refresh; when it does not resolve or is zero, the first
  resolution raises \<open>ApiRequestError\<close> and \<open>get_rate\<close> makes its one refresh and resolves
  once more.
\<close>

theorem self_rate:
  assumes "supported_code x"
    and "map_of (pairs (cs_cached cs)) (pair_key x x) = None"
  shows "convert_amount (cs_cached cs) amount x x = Inr amount
     \<and> (x = ''USD'' \<longrightarrow>
           get_pair_rate (cs_cached cs) x x = Inl (ApiRequestError ''rate not found in cache'')
           \<and> get_rate fiso id_map now_iso cg er now_utc ttl cs x x
               = (case try_refresh_rates fiso id_map now_iso cg er cs of
                    (Inl e, cs') \<Rightarrow> (Inl e, cs')
                  | (Inr u, cs') \<Rightarrow>
                      (case map_of (pairs (cs_cached cs')) (pair_key x x) of
                         None \<Rightarrow> (Inl (ApiRequestError ''rate not found in cache''), cs')
                       | Some item \<Rightarrow>
                           (Inr (rate_answer fiso now_utc ttl x x (rp_rate item, rp_updated_at item)),
                            cs'))))
     \<and> (x \<noteq> ''USD'' \<longrightarrow>
           get_pair_rate (cs_cached cs) x x
             = (case get_pair_rate (cs_cached cs) x ''USD'' of
                  Inl e \<Rightarrow> Inl e
                | Inr q \<Rightarrow>
                    if fst q = 0 then Inl (ApiRequestError ''zero rate of the USD bridge'')
                    else Inr (1, snd q))
           \<and> (get_pair_rate (cs_cached cs) x ''USD'' = Inr (r, upd) \<and> r \<noteq> 0 \<longrightarrow>
                get_rate fiso id_map now_iso cg er now_utc ttl cs x x
                  = (Inr \<lparr>rr_from = x, rr_to = x, rr_rate = 1, rr_updated_at = upd,
                           rr_stale = is_stale fiso now_utc ttl upd\<rparr>, cs))
           \<and> ((case get_pair_rate (cs_cached cs) x ''USD'' of
                  Inl e \<Rightarrow> True
                | Inr q \<Rightarrow> fst q = 0) \<longrightarrow>
                get_rate fiso id_map now_iso cg er now_utc ttl cs x x
                  = (case try_refresh_rates fiso id_map now_iso cg er cs of
                       (Inl e, cs') \<Rightarrow> (Inl e, cs')
                     | (Inr u, cs') \<Rightarrow>
                         (case get_pair_rate (cs_cached cs') x x of
                            Inl e \<Rightarrow> (Inl e, cs')
                          | Inr q \<Rightarrow> (Inr (rate_answer fiso now_utc ttl x x q), cs')))))"
proof (intro conjI impI)
  show "convert_amount (cs_cached cs) amount x x = Inr amount"
    by (simp add: convert_amount_def)
next
  assume usd: "x = ''USD''"
  have miss: "get_pair_rate snap x x = Inl (ApiRequestError ''rate not found in cache'')"
    if "map_of (pairs snap) (pair_key x x) = None" for snap
    using that assms(1) usd by (simp add: get_pair_rate_supported)
  from miss [OF assms(2)]
  show first: "get_pair_rate (cs_cached cs) x x = Inl (ApiRequestError ''rate not found in cache'')" .
  have second: "(case get_pair_rate (cs_cached cs') x x of
                   Inl e \<Rightarrow> (Inl e, cs')
                 | Inr r \<Rightarrow> (Inr (rate_answer fiso now_utc ttl x x r), cs'))
      = (case map_of (pairs (cs_cached cs')) (pair_key x x) of
           None \<Rightarrow> (Inl (ApiRequestError ''rate not found in cache''), cs')
         | Some item \<Rightarrow>
             (Inr (rate_answer fiso now_utc ttl x x (rp_rate item, rp_updated_at item)), cs'))"
    for cs'
  proof (cases "map_of (pairs (cs_cached cs')) (pair_key x x)")
    case None
    then show ?thesis by (simp add: miss)
  next
    case (Some item)
    then show ?thesis by (simp add: get_pair_rate_direct [OF assms(1) assms(1)])
  qed
  show "get_rate fiso id_map now_iso cg er now_utc ttl cs x x
               = (case try_refresh_rates fiso id_map now_iso cg er cs of
                    (Inl e, cs') \<Rightarrow> (Inl e, cs')
                  | (Inr u, cs') \<Rightarrow>
                      (case map_of (pairs (cs_cached cs')) (pair_key x x) of
                         None \<Rightarrow> (Inl (ApiRequestError ''rate not found in cache''), cs')
                       | Some item \<Rightarrow>
                           (Inr (rate_answer fiso now_utc ttl x x (rp_rate item, rp_updated_at item)),
                            cs')))"
    unfolding get_rate_refresh [OF first]
    by (simp add: second split: prod.splits sum.splits)
next
  assume ne: "x \<noteq> ''USD''"
  with assms show bridge: "get_pair_rate (cs_cached cs) x x
             = (case get_pair_rate (cs_cached cs) x ''USD'' of
                  Inl e \<Rightarrow> Inl e
                | Inr q \<Rightarrow>
                    if fst q = 0 then Inl (ApiRequestError ''zero rate of the USD bridge'')
                    else Inr (1, snd q))"
    by (simp add: get_pair_rate_supported [of x x] split: sum.splits)
  {
    assume "get_pair_rate (cs_cached cs) x ''USD'' = Inr (r, upd) \<and> r \<noteq> 0"
    then have "get_pair_rate (cs_cached cs) x x = Inr (1, upd)"
      by (simp add: bridge)
    then show "get_rate fiso id_map now_iso cg er now_utc ttl cs x x
                  = (Inr \<lparr>rr_from = x, rr_to = x, rr_rate = 1, rr_updated_at = upd,
                           rr_stale = is_stale fiso now_utc ttl upd\<rparr>, cs)"
      by (simp add: get_rate_resolved rate_answer_def)
  }
  {
    assume fails: "case get_pair_rate (cs_cached cs) x ''USD'' of
                  Inl e \<Rightarrow> True
                | Inr q \<Rightarrow> fst q = 0"
    have "\<exists>m. get_pair_rate (cs_cached cs) x x = Inl (ApiRequestError m)"
    proof (cases "get_pair_rate (cs_cached cs) x ''USD''")
      case (Inl e)
      with get_pair_rate_to_USD_error [OF assms(1) Inl] show ?thesis
        by (auto simp add: bridge)
    next
      case (Inr q)
      with fails show ?thesis by (simp add: bridge)
    qed
    then obtain m where "get_pair_rate (cs_cached cs) x x = Inl (ApiRequestError m)" ..
    then show "get_rate fiso id_map now_iso cg er now_utc ttl cs x x
                  = (case try_refresh_rates fiso id_map now_iso cg er cs of
                       (Inl e, cs') \<Rightarrow> (Inl e, cs')
                     | (Inr u, cs') \<Rightarrow>
                         (case get_pair_rate (cs_cached cs') x x of
                            Inl e \<Rightarrow> (Inl e, cs')
                          | Inr q \<Rightarrow> (Inr (rate_answer fiso now_utc ttl x x q), cs')))"
      by (rule get_rate_refresh)
  }
qed

lemma ex_refresh_fails:
  "try_refresh_rates fromisoformat_basic Map.empty ''2024-01-01T00:01:00Z'' ex_fetch_down ex_fetch_down cs
     = (Inl (ApiRequestError ''No rates fetched from any source''), cs)"
  by (simp add: try_refresh_rates_def run_update_def client_step_def record_failure_def
      initial_acc_def ex_fetch_down_def Let_def)

theorem self_rate_witness:
  "supported_code ''USD'' \<and> supported_code ''EUR'' \<and> supported_code ''RUB''
   \<and> map_of (pairs (cs_cached ex_core_state)) (pair_key ''USD'' ''USD'') = None
   \<and> map_of (pairs (cs_cached ex_core_state)) (pair_key ''EUR'' ''EUR'') = None
   \<and> map_of (pairs (cs_cached ex_core_state_zero)) (pair_key ''RUB'' ''RUB'') = None
   \<and> convert_amount (cs_cached ex_core_state) 7 ''USD'' ''USD'' = Inr 7
   \<and> get_pair_rate (cs_cached ex_core_state) ''USD'' ''USD''
       = Inl (ApiRequestError ''rate not found in cache'')
   \<and> get_rate fromisoformat_basic Map.empty ''2024-01-01T00:01:00Z'' ex_fetch_down ex_fetch_down
        1704067260000000 300 ex_core_state ''USD'' ''USD''
       = (Inl (ApiRequestError ''No rates fetched from any source''), ex_core_state)
   \<and> get_pair_rate (cs_cached ex_core_state) ''EUR'' ''USD'' = Inr (2, ''2024-01-01T00:00:00Z'')
   \<and> get_pair_rate (cs_cached ex_core_state) ''EUR'' ''EUR'' = Inr (1, ''2024-01-01T00:00:00Z'')
   \<and> get_rate fromisoformat_basic Map.empty ''2024-01-01T00:01:00Z'' ex_fetch_down ex_fetch_down
        1704067260000000 300 ex_core_state ''EUR'' ''EUR''
       = (Inr \<lparr>rr_from = ''EUR'', rr_to = ''EUR'', rr_rate = 1,
                rr_updated_at = ''2024-01-01T00:00:00Z'', rr_stale = False\<rparr>, ex_core_state)
   \<and> get_pair_rate (cs_cached ex_core_state_zero) ''RUB'' ''USD'' = Inr (0, ''2024-01-02T00:00:00Z'')
   \<and> get_rate fromisoformat_basic Map.empty ''2024-01-01T00:01:00Z'' ex_fetch_down ex_fetch_down
        1704067260000000 300 ex_core_state_zero ''RUB'' ''RUB''
       = (Inl (ApiRequestError ''No rates fetched from any source''), ex_core_state_zero)"
proof -
  have n: "map_of (pairs (cs_cached ex_core_state)) (pair_key ''USD'' ''USD'') = None"
    "map_of (pairs (cs_cached ex_core_state)) (pair_key ''EUR'' ''EUR'') = None"
    by (simp_all add: ex_core_state_def ex_snapshot_jan1_def pair_keys_ex)
  have rub_key: "pair_key ''RUB'' ''RUB'' = ''RUB_RUB''"
    by code_simp
  have nz: "map_of (pairs (cs_cached ex_core_state_zero)) (pair_key ''RUB'' ''RUB'') = None"
    by (simp add: ex_core_state_zero_def ex_snapshot_zero_def rub_key)
  have s: "map_of (pairs (cs_cached ex_core_state)) (pair_key ''EUR'' ''USD'') = Some ex_point_jan1"
    by (simp add: ex_core_state_def ex_snapshot_jan1_def pair_keys_ex)
  have e: "get_pair_rate (cs_cached ex_core_state) ''EUR'' ''USD'' = Inr (2, ''2024-01-01T00:00:00Z'')"
    using s by (simp add: get_pair_rate_direct supported_EUR supported_USD ex_point_jan1_def)
  define zero_point where "zero_point =
    \<lparr>rp_rate = 0, rp_updated_at = ''2024-01-02T00:00:00Z'', rp_source = ''ExchangeRate-API''\<rparr>"
  have sz: "map_of (pairs (cs_cached ex_core_state_zero)) (pair_key ''RUB'' ''USD'') = Some zero_point"
    by (simp add: ex_core_state_zero_def ex_snapshot_zero_def pair_keys_ex zero_point_def)
  have z: "get_pair_rate (cs_cached ex_core_state_zero) ''RUB'' ''USD'' = Inr (0, ''2024-01-02T00:00:00Z'')"
    using sz by (simp add: get_pair_rate_direct supported_RUB supported_USD zero_point_def)
  note usd = self_rate [OF supported_USD n(1), of 7 fromisoformat_basic Map.empty
      "''2024-01-01T00:01:00Z''" ex_fetch_down ex_fetch_down 1704067260000000 300]
  note eur = self_rate [OF supported_EUR n(2), of 7 fromisoformat_basic Map.empty
      "''2024-01-01T00:01:00Z''" ex_fetch_down ex_fetch_down 1704067260000000 300
      2 "''2024-01-01T00:00:00Z''"]
  note rub = self_rate [OF supported_RUB nz, of 7 fromisoformat_basic Map.empty
      "''2024-01-01T00:01:00Z''" ex_fetch_down ex_fetch_down 1704067260000000 300]
  from usd have a: "convert_amount (cs_cached ex_core_state) 7 ''USD'' ''USD'' = Inr 7"
    and b: "get_pair_rate (cs_cached ex_core_state) ''USD'' ''USD''
       = Inl (ApiRequestError ''rate not found in cache'')"
    and c: "get_rate fromisoformat_basic Map.empty ''2024-01-01T00:01:00Z'' ex_fetch_down ex_fetch_down
        1704067260000000 300 ex_core_state ''USD'' ''USD''
       = (Inl (ApiRequestError ''No rates fetched from any source''), ex_core_state)"
    by (simp_all add: ex_refresh_fails)
  from eur e have d: "get_pair_rate (cs_cached ex_core_state) ''EUR'' ''EUR''
      = Inr (1, ''2024-01-01T00:00:00Z'')"
    by simp
  from eur e have f: "get_rate fromisoformat_basic Map.empty ''2024-01-01T00:01:00Z'' ex_fetch_down
        ex_fetch_down 1704067260000000 300 ex_core_state ''EUR'' ''EUR''
       = (Inr \<lparr>rr_from = ''EUR'', rr_to = ''EUR'', rr_rate = 1,
                rr_updated_at = ''2024-01-01T00:00:00Z'', rr_stale = False\<rparr>, ex_core_state)"
    by (simp add: stale_jan1)
  from rub z have g: "get_rate fromisoformat_basic Map.empty ''2024-01-01T00:01:00Z'' ex_fetch_down
        ex_fetch_down 1704067260000000 300 ex_core_state_zero ''RUB'' ''RUB''
       = (Inl (ApiRequestError ''No rates fetched from any source''), ex_core_state_zero)"
    by (simp add: ex_refresh_fails)
  from supported_USD supported_EUR supported_RUB n nz a b c e d f z g show ?thesis
    by (intro conjI)
qed

theorem self_rate_counterexample:
  "supported_code ''EUR''
   \<and> map_of (pairs (cs_cached ex_core_state)) (pair_key ''EUR'' ''EUR'') = None
   \<and> get_rate fromisoformat_basic Map.empty ''2024-01-01T00:01:00Z'' ex_fetch_down ex_fetch_down
        1704067260000000 300 ex_core_state ''EUR'' ''EUR''
       = (Inr \<lparr>rr_from = ''EUR'', rr_to = ''EUR'', rr_rate = 1,
                rr_updated_at = ''2024-01-01T00:00:00Z'', rr_stale = False\<rparr>, ex_core_state)"
proof -
  have n: "map_of (pairs (cs_cached ex_core_state)) (pair_key ''EUR'' ''EUR'') = None"
    "map_of (pairs (cs_cached ex_core_state)) (pair_key ''USD'' ''EUR'') = None"
    by (simp_all add: ex_core_state_def ex_snapshot_jan1_def pair_keys_ex)
  have s: "map_of (pairs (cs_cached ex_core_state)) (pair_key ''EUR'' ''USD'') = Some ex_point_jan1"
    by (simp add: ex_core_state_def ex_snapshot_jan1_def pair_keys_ex)
  have e: "get_pair_rate (cs_cached ex_core_state) ''EUR'' ''USD'' = Inr (2, ''2024-01-01T00:00:00Z'')"
    using s by (simp add: get_pair_rate_direct supported_EUR supported_USD ex_point_jan1_def)
  have "get_pair_rate (cs_cached ex_core_state) ''EUR'' ''EUR'' = Inr (1, ''2024-01-01T00:00:00Z'')"
    using n e by (simp add: get_pair_rate_supported [OF supported_EUR supported_EUR])
  then have "get_rate fromisoformat_basic Map.empty ''2024-01-01T00:01:00Z'' ex_fetch_down ex_fetch_down
        1704067260000000 300 ex_core_state ''EUR'' ''EUR''
       = (Inr \<lparr>rr_from = ''EUR'', rr_to = ''EUR'', rr_rate = 1,
                rr_updated_at = ''2024-01-01T00:00:00Z'', rr_stale = False\<rparr>, ex_core_state)"
    by (simp add: get_rate_resolved rate_answer_def stale_jan1)
  with supported_EUR n(1) show ?thesis by (intro conjI)
qed

end
